theory Spec2Isabelle
  imports Main "HOL-Library.Multiset" "HOL-Library.Char_ord" "HOL-Library.List_Lexorder"
begin

section \<open>The data loader of webviz-ert\<close>

text \<open>
  A shallow embedding of \<^verbatim>\<open>webviz_ert/data_loader/__init__.py\<close>. The module talks to
  three libraries that are not part of it: \<^verbatim>\<open>requests\<close> (HTTP), \<^verbatim>\<open>json\<close> and \<^verbatim>\<open>pandas\<close>.
  What the network and the decoders answer is an input of the model (the record \<open>env\<close>);
  what the module does with the answer is translated function by function.
  Exceptions are values of the type \<open>exn\<close>, and a call that may raise returns \<open>exn + 'a\<close>
  with \<open>Inl\<close> for the exception. The two observable effects, the HTTP calls handed to
  \<^verbatim>\<open>requests\<close> and the calls of \<^verbatim>\<open>logger.error\<close>, are traces in the record \<open>world\<close>.
  A Python string is the list of its code points, which are taken to be below 256.
\<close>

subsection \<open>Python values\<close>

text \<open>
  A decoded JSON document. An object is an association list in insertion order, as a
  Python \<^verbatim>\<open>dict\<close> is; a float is kept as mantissa and binary exponent and never computed on.
\<close>

datatype json =
    JNull
  | JBool bool
  | JInt int
  | JFloat int int
  | JStr string
  | JList "json list"
  | JObj "(string \<times> json) list"

text \<open>
  The exceptions the module raises, catches or lets through.
  \<^item> \<open>RuntimeError status doc\<close> is raised by \<^verbatim>\<open>_query\<close>; its message is built from the status
    code and the document (the raw body, \<open>Inl\<close>, when the body was not JSON).
  \<^item> \<open>DataLoaderException url status body\<close> is raised by \<^verbatim>\<open>_get\<close>; its message is built from
    the full URL, the status code and the body.
  \<^item> \<open>JSONDecodeError\<close>, \<open>KeyError\<close>, \<open>TypeError\<close>, \<open>IndexError\<close>, \<open>OverflowError\<close> are the
    built-in exceptions of the same names; \<open>External\<close> is any exception of a library
    (a connection error of \<^verbatim>\<open>requests\<close>, a decoding error of the parquet reader).
\<close>

datatype exn =
    RuntimeError int "string + json"
  | DataLoaderException string int string
  | JSONDecodeError
  | KeyError string
  | TypeError
  | IndexError
  | OverflowError
  | External string

text \<open>\<^verbatim>\<open>d[k] = v\<close> on a dict: an existing key keeps its position, a new key goes last.\<close>

fun dict_setitem :: "'k \<Rightarrow> 'v \<Rightarrow> ('k \<times> 'v) list \<Rightarrow> ('k \<times> 'v) list" where
  "dict_setitem k v [] = [(k, v)]"
| "dict_setitem k v (p # ps) = (if fst p = k then (k, v) # ps else p # dict_setitem k v ps)"

text \<open>\<^verbatim>\<open>{**d, **e}\<close>: the items of \<open>e\<close> are stored into a copy of \<open>d\<close>, in order.\<close>

definition dict_merge :: "('k \<times> 'v) list \<Rightarrow> ('k \<times> 'v) list \<Rightarrow> ('k \<times> 'v) list" where
  "dict_merge d e = fold (\<lambda>(k, v). dict_setitem k v) e d"

text \<open>\<^verbatim>\<open>x[k]\<close> with a string key: only a dict can be subscripted by a string.\<close>

fun getitem :: "json \<Rightarrow> string \<Rightarrow> exn + json" where
  "getitem (JObj kvs) k = (case map_of kvs k of None \<Rightarrow> Inl (KeyError k) | Some v \<Rightarrow> Inr v)"
| "getitem _ k = Inl TypeError"

text \<open>
  \<^verbatim>\<open>for x in v\<close>: a list yields its elements, a dict its keys, a string its characters;
  nothing else is iterable.
\<close>

fun py_iter :: "json \<Rightarrow> exn + json list" where
  "py_iter (JList xs) = Inr xs"
| "py_iter (JObj kvs) = Inr (map (\<lambda>kv. JStr (fst kv)) kvs)"
| "py_iter (JStr s) = Inr (map (\<lambda>c. JStr [c]) s)"
| "py_iter _ = Inl TypeError"

text \<open>Evaluating \<open>f\<close> on each element in order; the first exception ends the loop.\<close>

fun traverse :: "('a \<Rightarrow> exn + 'b) \<Rightarrow> 'a list \<Rightarrow> exn + 'b list" where
  "traverse f [] = Inr []"
| "traverse f (x # xs) =
     (case f x of
        Inl e \<Rightarrow> Inl e
      | Inr y \<Rightarrow> (case traverse f xs of Inl e \<Rightarrow> Inl e | Inr ys \<Rightarrow> Inr (y # ys)))"

subsection \<open>Requests, responses and the outside world\<close>

datatype pval = PStr string | PInt int | PBool bool

record get_request =
  url :: string
  headers :: "(string \<times> string option) list"
  params :: "(string \<times> pval) list option"

record post_request =
  post_url :: string
  post_query :: string
  post_variables :: "(string \<times> string) list"
  post_headers :: "(string \<times> string option) list"

datatype http_call = GET get_request | POST post_request

record response =
  status_code :: int
  content :: string

text \<open>A table of \<^verbatim>\<open>pandas\<close>: column labels, and rows that carry their index label.\<close>

datatype label = LInt int | LStr string

datatype cell = CNull | CInt int | CFloat int int | CStr string

record dataframe =
  columns :: "label list"
  rows :: "(label \<times> cell list) list"

text \<open>
  The libraries. \<open>http_get\<close> and \<open>http_post\<close> (\<^verbatim>\<open>requests.get\<close> and
  \<^verbatim>\<open>requests.post\<close>) answer a request with a response or raise; \<open>json_loads\<close> is the JSON decoder behind \<^verbatim>\<open>Response.json\<close> and \<^verbatim>\<open>json.loads\<close>
  (\<open>None\<close>: the text is not JSON); \<open>read_parquet\<close> decodes a parquet body; \<open>read_csv\<close>
  decodes a CSV body, given \<^verbatim>\<open>index_col\<close> and \<^verbatim>\<open>float_precision\<close>. \<open>transpose_cast\<close> is
  the cast of \<^verbatim>\<open>DataFrame.transpose\<close>, which goes through one array of a common dtype: in
  a table whose columns have different dtypes the cells are cast to it (the integers of
  an \<^verbatim>\<open>int64\<close> column next to a \<^verbatim>\<open>float64\<close> column become floats); it is given the table
  and a cell.
\<close>

record env =
  http_get :: "get_request \<Rightarrow> exn + response"
  http_post :: "post_request \<Rightarrow> exn + response"
  json_loads :: "string \<Rightarrow> json option"
  read_parquet :: "string \<Rightarrow> exn + dataframe"
  read_csv :: "string \<Rightarrow> nat \<Rightarrow> string \<Rightarrow> exn + dataframe"
  transpose_cast :: "dataframe \<Rightarrow> cell \<Rightarrow> cell"

record world =
  wire :: "http_call list"
  errlog :: "exn list"

definition logger_error :: "exn \<Rightarrow> world \<Rightarrow> world" where
  "logger_error e w = w\<lparr>errlog := errlog w @ [e]\<rparr>"

definition requests_get :: "env \<Rightarrow> get_request \<Rightarrow> world \<Rightarrow> (exn + response) \<times> world" where
  "requests_get env req w = (http_get env req, w\<lparr>wire := wire w @ [GET req]\<rparr>)"

definition requests_post :: "env \<Rightarrow> post_request \<Rightarrow> world \<Rightarrow> (exn + response) \<times> world" where
  "requests_post env req w = (http_post env req, w\<lparr>wire := wire w @ [POST req]\<rparr>)"

text \<open>\<^verbatim>\<open>resp.json()\<close>\<close>

definition response_json :: "env \<Rightarrow> response \<Rightarrow> exn + json" where
  "response_json env resp =
     (case json_loads env (content resp) of None \<Rightarrow> Inl JSONDecodeError | Some d \<Rightarrow> Inr d)"

text \<open>Sequencing: the second computation runs only when the first did not raise.\<close>

definition and_then ::
  "(exn + 'a) \<times> world \<Rightarrow> ('a \<Rightarrow> world \<Rightarrow> (exn + 'b) \<times> world) \<Rightarrow> (exn + 'b) \<times> world" where
  "and_then m f = (case m of (Inl e, w) \<Rightarrow> (Inl e, w) | (Inr x, w) \<Rightarrow> f x w)"

text \<open>The same when what follows has no effect of its own, as decoding a body.\<close>

definition then_pure :: "(exn + 'a) \<times> world \<Rightarrow> ('a \<Rightarrow> exn + 'b) \<Rightarrow> (exn + 'b) \<times> world" where
  "then_pure m f = (case m of (Inl e, w) \<Rightarrow> (Inl e, w) | (Inr x, w) \<Rightarrow> (f x, w))"

text \<open>
  \<^verbatim>\<open>try: ... except DataLoaderException as e: logger.error(e); return empty\<close> and the same
  for \<^verbatim>\<open>RuntimeError\<close>: the handler takes the one exception class, everything else goes on.
\<close>

fun except_DataLoaderException :: "'a \<Rightarrow> (exn + 'a) \<times> world \<Rightarrow> (exn + 'a) \<times> world" where
  "except_DataLoaderException dflt (Inl (DataLoaderException u s b), w) =
     (Inr dflt, logger_error (DataLoaderException u s b) w)"
| "except_DataLoaderException dflt r = r"

fun except_RuntimeError :: "'a \<Rightarrow> (exn + 'a) \<times> world \<Rightarrow> (exn + 'a) \<times> world" where
  "except_RuntimeError dflt (Inl (RuntimeError s d), w) =
     (Inr dflt, logger_error (RuntimeError s d) w)"
| "except_RuntimeError dflt r = r"

subsection \<open>The client\<close>

record loader =
  baseurl :: string
  token :: "string option"
  graphql_cache :: "(string \<times> ((string \<times> string) list \<times> json) list) list"

definition unlines :: "string list \<Rightarrow> string" where
  "unlines ls = concat (map (\<lambda>l. l @ [CHR 0x0A]) ls)"

definition GET_ALL_ENSEMBLES :: string where
  "GET_ALL_ENSEMBLES = unlines
     [''query {'',
      ''  experiments {'',
      ''    name'',
      ''    ensembles {'',
      ''      id'',
      ''      timeCreated'',
      ''      parentEnsemble {'',
      ''        id'',
      ''      }'',
      ''      childEnsembles {'',
      ''        id'',
      ''      }'',
      ''    }'',
      ''  }'',
      ''}'']"

definition GET_ENSEMBLE :: string where
  "GET_ENSEMBLE = unlines
     [''query ($id: ID!) {'',
      ''  ensemble(id: $id) {'',
      ''    id'',
      ''    size'',
      ''    activeRealizations'',
      ''    timeCreated'',
      ''    children {'',
      ''      ensembleResult{'',
      ''        id'',
      ''      }'',
      ''    }'',
      ''    userdata'',
      ''    parent {'',
      ''      ensembleReference{'',
      ''        id'',
      ''      }'',
      ''    }'',
      ''    experiment {'',
      ''      id'',
      ''      name'',
      ''    }'',
      ''  }'',
      ''}'']"

definition GET_PRIORS :: string where
  "GET_PRIORS = unlines
     [''query($id: ID!) {'',
      ''  experiment(id: $id) {'',
      ''    priors'',
      ''  }'',
      ''}'']"

text \<open>\<^verbatim>\<open>DataLoader._query\<close>\<close>

definition DataLoader_query ::
  "env \<Rightarrow> loader \<Rightarrow> string \<Rightarrow> (string \<times> string) list \<Rightarrow> world \<Rightarrow> (exn + json) \<times> world" where
  "DataLoader_query env self query kwargs w =
     and_then
       (requests_post env
          \<lparr>post_url = baseurl self @ ''/gql'', post_query = query, post_variables = kwargs,
           post_headers = [(''Token'', token self)]\<rparr> w)
       (\<lambda>resp w1.
          (case json_loads env (content resp) of
             None \<Rightarrow> (Inl (RuntimeError (status_code resp) (Inl (content resp))), w1)
           | Some doc \<Rightarrow>
               if status_code resp \<noteq> 200
               then (Inl (RuntimeError (status_code resp) (Inr doc)), w1)
               else (getitem doc ''data'', w1)))"

text \<open>\<^verbatim>\<open>DataLoader._get\<close>\<close>

definition DataLoader_get ::
  "env \<Rightarrow> loader \<Rightarrow> string \<Rightarrow> (string \<times> string option) list option \<Rightarrow>
   (string \<times> pval) list option \<Rightarrow> world \<Rightarrow> (exn + response) \<times> world" where
  "DataLoader_get env self u hdrs ps w =
     (let hdrs = (case hdrs of None \<Rightarrow> [] | Some h \<Rightarrow> h) in
      and_then
        (requests_get env
           \<lparr>url = baseurl self @ ''/'' @ u,
            headers = dict_setitem ''Token'' (token self) hdrs,
            params = ps\<rparr> w)
        (\<lambda>resp w1.
           if status_code resp \<noteq> 200
           then (Inl (DataLoaderException (baseurl self @ ''/'' @ u) (status_code resp)
                        (content resp)), w1)
           else (Inr resp, w1)))"

text \<open>
  The comprehension of \<^verbatim>\<open>get_all_ensembles\<close>. For each experiment \<^verbatim>\<open>exp["ensembles"]\<close> is
  read and iterated; for each ensemble \<^verbatim>\<open>exp["name"]\<close> is read and the dict display
  \<^verbatim>\<open>{"name": ..., **ens}\<close> is built, which needs \<open>ens\<close> to be a dict.
\<close>

definition ensemble_record :: "json \<Rightarrow> json \<Rightarrow> exn + json" where
  "ensemble_record exp ens =
     (case getitem exp ''name'' of
        Inl e \<Rightarrow> Inl e
      | Inr n \<Rightarrow>
          (case ens of
             JObj kvs \<Rightarrow> Inr (JObj (dict_merge [(''name'', n)] kvs))
           | _ \<Rightarrow> Inl TypeError))"

definition experiment_records :: "json \<Rightarrow> exn + json list" where
  "experiment_records exp =
     (case getitem exp ''ensembles'' of
        Inl e \<Rightarrow> Inl e
      | Inr enss \<Rightarrow>
          (case py_iter enss of
             Inl e \<Rightarrow> Inl e
           | Inr es \<Rightarrow> traverse (ensemble_record exp) es))"

definition flatten_experiments :: "json \<Rightarrow> exn + json" where
  "flatten_experiments experiments =
     (case py_iter experiments of
        Inl e \<Rightarrow> Inl e
      | Inr exps \<Rightarrow>
          (case traverse experiment_records exps of
             Inl e \<Rightarrow> Inl e
           | Inr rs \<Rightarrow> Inr (JList (concat rs))))"

definition get_all_ensembles :: "env \<Rightarrow> loader \<Rightarrow> world \<Rightarrow> (exn + json) \<times> world" where
  "get_all_ensembles env self w =
     except_RuntimeError (JList [])
       (then_pure (DataLoader_query env self GET_ALL_ENSEMBLES [] w)
          (\<lambda>data.
             (case getitem data ''experiments'' of
                Inl e \<Rightarrow> Inl e
              | Inr experiments \<Rightarrow> flatten_experiments experiments)))"

definition get_ensemble :: "env \<Rightarrow> loader \<Rightarrow> string \<Rightarrow> world \<Rightarrow> (exn + json) \<times> world" where
  "get_ensemble env self ensemble_id w =
     except_RuntimeError (JObj [])
       (then_pure (DataLoader_query env self GET_ENSEMBLE [(''id'', ensemble_id)] w)
          (\<lambda>data. getitem data ''ensemble''))"

definition get_ensemble_responses ::
  "env \<Rightarrow> loader \<Rightarrow> string \<Rightarrow> world \<Rightarrow> (exn + json) \<times> world" where
  "get_ensemble_responses env self ensemble_id w =
     except_DataLoaderException (JObj [])
       (then_pure
          (DataLoader_get env self (''ensembles/'' @ ensemble_id @ ''/responses'') None None w)
          (response_json env))"

definition get_ensemble_userdata ::
  "env \<Rightarrow> loader \<Rightarrow> string \<Rightarrow> world \<Rightarrow> (exn + json) \<times> world" where
  "get_ensemble_userdata env self ensemble_id w =
     except_DataLoaderException (JObj [])
       (then_pure
          (DataLoader_get env self (''ensembles/'' @ ensemble_id @ ''/userdata'') None None w)
          (response_json env))"

definition get_ensemble_parameters ::
  "env \<Rightarrow> loader \<Rightarrow> string \<Rightarrow> world \<Rightarrow> (exn + json) \<times> world" where
  "get_ensemble_parameters env self ensemble_id w =
     except_DataLoaderException (JList [])
       (then_pure
          (DataLoader_get env self (''ensembles/'' @ ensemble_id @ ''/parameters'') None None w)
          (response_json env))"

definition get_record_labels ::
  "env \<Rightarrow> loader \<Rightarrow> string \<Rightarrow> string \<Rightarrow> world \<Rightarrow> (exn + json) \<times> world" where
  "get_record_labels env self ensemble_id name w =
     except_DataLoaderException (JList [])
       (then_pure
          (DataLoader_get env self
             (''ensembles/'' @ ensemble_id @ ''/records/'' @ name @ ''/labels'') None None w)
          (response_json env))"

text \<open>
  \<^verbatim>\<open>json.loads\<close> takes text: anything but a string raises \<^verbatim>\<open>TypeError\<close>, a string that is
  not a JSON document raises \<^verbatim>\<open>JSONDecodeError\<close>.
\<close>

definition loads :: "env \<Rightarrow> json \<Rightarrow> exn + json" where
  "loads env v =
     (case v of
        JStr s \<Rightarrow> (case json_loads env s of None \<Rightarrow> Inl JSONDecodeError | Some d \<Rightarrow> Inr d)
      | _ \<Rightarrow> Inl TypeError)"

definition get_experiment_priors ::
  "env \<Rightarrow> loader \<Rightarrow> string \<Rightarrow> world \<Rightarrow> (exn + json) \<times> world" where
  "get_experiment_priors env self experiment_id w =
     except_RuntimeError (JObj [])
       (then_pure (DataLoader_query env self GET_PRIORS [(''id'', experiment_id)] w)
          (\<lambda>data.
             (case getitem data ''experiment'' of
                Inl e \<Rightarrow> Inl e
              | Inr experiment \<Rightarrow>
                  (case getitem experiment ''priors'' of
                     Inl e \<Rightarrow> Inl e
                   | Inr priors \<Rightarrow> loads env priors))))"

definition get_ensemble_record_observations ::
  "env \<Rightarrow> loader \<Rightarrow> string \<Rightarrow> string \<Rightarrow> world \<Rightarrow> (exn + json) \<times> world" where
  "get_ensemble_record_observations env self ensemble_id record_name w =
     except_DataLoaderException (JList [])
       (then_pure
          (DataLoader_get env self
             (''ensembles/'' @ ensemble_id @ ''/records/'' @ record_name @ ''/observations'')
             None (Some [(''realization_index'', PInt 0)]) w)
          (response_json env))"

subsection \<open>Tables\<close>

definition index :: "dataframe \<Rightarrow> label list" where
  "index df = map fst (rows df)"

text \<open>\<^verbatim>\<open>pd.DataFrame()\<close>\<close>

definition empty_frame :: dataframe where
  "empty_frame = \<lparr>columns = [], rows = []\<rparr>"

text \<open>
  \<^verbatim>\<open>df.transpose()\<close>: the column labels become the index, the index becomes the column
  labels, and the new row of column \<open>j\<close> holds cell \<open>j\<close> of every old row, cast to the
  common dtype of the table.
\<close>

definition transpose_df :: "env \<Rightarrow> dataframe \<Rightarrow> dataframe" where
  "transpose_df env df =
     \<lparr>columns = index df,
      rows = map (\<lambda>j. (columns df ! j, map (\<lambda>r. transpose_cast env df (snd r ! j)) (rows df)))
               [0..<length (columns df)]\<rparr>"

text \<open>
  \<^verbatim>\<open>int(s)\<close> on a string: surrounding white space is dropped, one sign is allowed, then
  decimal digits, with single underscores between digits. The white space of \<^verbatim>\<open>int\<close> is
  the ASCII white space (space, tab, line feed, vertical tab, form feed, carriage
  return) and the white space beyond ASCII, of which the code points below 256 have two,
  \<^verbatim>\<open>0x85\<close> and \<^verbatim>\<open>0xA0\<close>; the separators \<^verbatim>\<open>0x1C\<close> to \<^verbatim>\<open>0x1F\<close>, which
  \<^verbatim>\<open>str.strip\<close> drops, are not among it. The only decimal digits below 256 are \<open>0\<close> to
  \<open>9\<close>.
\<close>

definition is_space :: "char \<Rightarrow> bool" where
  "is_space c =
     (c \<in> set [CHR 0x20, CHR 0x09, CHR 0x0A, CHR 0x0B, CHR 0x0C, CHR 0x0D, CHR 0x85, CHR 0xA0])"

definition strip :: "string \<Rightarrow> string" where
  "strip s = rev (dropWhile is_space (rev (dropWhile is_space s)))"

definition digit_val :: "char \<Rightarrow> nat option" where
  "digit_val c =
     (if CHR ''0'' \<le> c \<and> c \<le> CHR ''9'' then Some (of_char c - of_char (CHR ''0'')) else None)"

fun digits_val :: "nat \<Rightarrow> string \<Rightarrow> nat option" where
  "digits_val acc [] = Some acc"
| "digits_val acc [c] = (case digit_val c of None \<Rightarrow> None | Some d \<Rightarrow> Some (10 * acc + d))"
| "digits_val acc (c # c' # cs) =
     (if c = CHR ''_''
      then (case digit_val c' of None \<Rightarrow> None | Some d \<Rightarrow> digits_val (10 * acc + d) cs)
      else (case digit_val c of None \<Rightarrow> None | Some d \<Rightarrow> digits_val (10 * acc + d) (c' # cs)))"

definition py_nat :: "string \<Rightarrow> nat option" where
  "py_nat s =
     (case s of
        [] \<Rightarrow> None
      | c # cs \<Rightarrow> (case digit_val c of None \<Rightarrow> None | Some d \<Rightarrow> digits_val d cs))"

definition py_int :: "string \<Rightarrow> int option" where
  "py_int s =
     (case strip s of
        [] \<Rightarrow> None
      | c # cs \<Rightarrow>
          if c = CHR ''+'' then map_option int (py_nat cs)
          else if c = CHR ''-'' then map_option (\<lambda>n. - int n) (py_nat cs)
          else map_option int (py_nat (c # cs)))"

text \<open>
  \<^verbatim>\<open>df.index.astype(int)\<close>, element by element. The handler in \<^verbatim>\<open>get_ensemble_record_data\<close>
  is written for the \<^verbatim>\<open>pandas\<close> whose \<^verbatim>\<open>Index.astype\<close> reports a label that cannot be
  converted as \<^verbatim>\<open>TypeError\<close> (``Cannot cast Index to dtype int64''). The target type is
  the 64-bit integer: an integer or a numeral outside its range raises \<^verbatim>\<open>OverflowError\<close>.
\<close>

definition in_int64 :: "int \<Rightarrow> bool" where
  "in_int64 i = (- (2 ^ 63) \<le> i \<and> i < 2 ^ 63)"

fun label_astype_int :: "label \<Rightarrow> exn + label" where
  "label_astype_int (LInt i) = (if in_int64 i then Inr (LInt i) else Inl OverflowError)"
| "label_astype_int (LStr s) =
     (case py_int s of
        None \<Rightarrow> Inl TypeError
      | Some i \<Rightarrow> if in_int64 i then Inr (LInt i) else Inl OverflowError)"

definition index_astype_int :: "label list \<Rightarrow> exn + label list" where
  "index_astype_int ls = traverse label_astype_int ls"

text \<open>\<^verbatim>\<open>df.index = ls\<close>\<close>

definition set_index :: "dataframe \<Rightarrow> label list \<Rightarrow> dataframe" where
  "set_index df ls = df\<lparr>rows := map2 (\<lambda>l r. (l, snd r)) ls (rows df)\<rparr>"

text \<open>
  \<^verbatim>\<open>df.sort_index()\<close>: the rows in ascending order of their index label. Integers are
  compared as numbers and strings character by character; an index that mixes the two
  cannot be compared and raises \<^verbatim>\<open>TypeError\<close>. An index that is ascending already is
  left as it is. Rows with equal labels keep their order here, which \<^verbatim>\<open>pandas\<close> does not
  promise; no statement below depends on it.
\<close>

fun is_int_label :: "label \<Rightarrow> bool" where
  "is_int_label (LInt i) = True"
| "is_int_label (LStr s) = False"

fun is_str_label :: "label \<Rightarrow> bool" where
  "is_str_label (LInt i) = False"
| "is_str_label (LStr s) = True"

fun int_key :: "label \<Rightarrow> int" where
  "int_key (LInt i) = i"
| "int_key (LStr s) = 0"

fun str_key :: "label \<Rightarrow> string" where
  "str_key (LInt i) = []"
| "str_key (LStr s) = s"

definition sort_index :: "dataframe \<Rightarrow> exn + dataframe" where
  "sort_index df =
     (if list_all is_int_label (index df)
      then Inr (df\<lparr>rows := sort_key (\<lambda>r. int_key (fst r)) (rows df)\<rparr>)
      else if list_all is_str_label (index df)
      then Inr (df\<lparr>rows := sort_key (\<lambda>r. str_key (fst r)) (rows df)\<rparr>)
      else Inl TypeError)"

text \<open>\<^verbatim>\<open>s.find(sub)\<close>: the position of the first occurrence of \<open>sub\<close> in \<open>s\<close>.\<close>

fun str_find :: "string \<Rightarrow> string \<Rightarrow> nat option" where
  "str_find sub [] = (if sub = [] then Some 0 else None)"
| "str_find sub (c # cs) =
     (if take (length sub) (c # cs) = sub then Some 0 else map_option Suc (str_find sub cs))"

text \<open>
  \<^verbatim>\<open>if sep in s: a, b = s.split(sep, 1)\<close>: the text before and after the first occurrence
  of the separator, when there is one.
\<close>

definition split_once :: "string \<Rightarrow> string \<Rightarrow> (string \<times> string) option" where
  "split_once sep s =
     (case str_find sep s of
        None \<Rightarrow> None
      | Some i \<Rightarrow> Some (take i s, drop (i + length sep) s))"

text \<open>\<^verbatim>\<open>pd.read_parquet(io.BytesIO(resp.content)).transpose()\<close>\<close>

definition decode_parquet :: "env \<Rightarrow> response \<Rightarrow> exn + dataframe" where
  "decode_parquet env resp =
     (case read_parquet env (content resp) of
        Inl e \<Rightarrow> Inl e
      | Inr df \<Rightarrow> Inr (transpose_df env df))"

definition get_ensemble_parameter_data ::
  "env \<Rightarrow> loader \<Rightarrow> string \<Rightarrow> string \<Rightarrow> world \<Rightarrow> (exn + dataframe) \<times> world" where
  "get_ensemble_parameter_data env self ensemble_id parameter_name w =
     except_DataLoaderException empty_frame
       (let (name, ps) =
              (case split_once ''::'' parameter_name of
                 Some (name, label) \<Rightarrow> (name, [(''label'', PStr label)])
               | None \<Rightarrow> (parameter_name, []))
        in then_pure
             (DataLoader_get env self (''ensembles/'' @ ensemble_id @ ''/records/'' @ name)
                (Some [(''accept'', Some ''application/x-parquet'')]) (Some ps) w)
             (decode_parquet env))"

text \<open>
  The second \<^verbatim>\<open>try\<close> of \<^verbatim>\<open>get_ensemble_record_data\<close>: the index is replaced by its integer
  reading; a \<^verbatim>\<open>TypeError\<close> leaves the table as it is, any other exception goes on.
\<close>

definition coerce_index :: "dataframe \<Rightarrow> exn + dataframe" where
  "coerce_index df =
     (case index_astype_int (index df) of
        Inl TypeError \<Rightarrow> Inr df
      | Inl e \<Rightarrow> Inl e
      | Inr ls \<Rightarrow> Inr (set_index df ls))"

definition get_ensemble_record_data ::
  "env \<Rightarrow> loader \<Rightarrow> string \<Rightarrow> string \<Rightarrow> world \<Rightarrow> (exn + dataframe) \<times> world" where
  "get_ensemble_record_data env self ensemble_id record_name w =
     (case then_pure
             (DataLoader_get env self (''ensembles/'' @ ensemble_id @ ''/records/'' @ record_name)
                (Some [(''accept'', Some ''application/x-parquet'')]) None w)
             (decode_parquet env) of
        (Inl (DataLoaderException u s b), w1) \<Rightarrow>
          (Inr empty_frame, logger_error (DataLoaderException u s b) w1)
      | (Inl e, w1) \<Rightarrow> (Inl e, w1)
      | (Inr df, w1) \<Rightarrow>
          (case coerce_index df of
             Inl e \<Rightarrow> (Inl e, w1)
           | Inr df' \<Rightarrow> (sort_index df', w1)))"

definition compute_misfit ::
  "env \<Rightarrow> loader \<Rightarrow> string \<Rightarrow> string \<Rightarrow> bool \<Rightarrow> world \<Rightarrow> (exn + dataframe) \<times> world" where
  "compute_misfit env self ensemble_id response_name summary w =
     except_DataLoaderException empty_frame
       (then_pure
          (DataLoader_get env self ''compute/misfits'' None
             (Some [(''ensemble_id'', PStr ensemble_id),
                    (''response_name'', PStr response_name),
                    (''summary_misfits'', PBool summary)]) w)
          (\<lambda>resp. read_csv env (content resp) 0 ''round_trip''))"

subsection \<open>One client per connection\<close>

text \<open>
  \<^verbatim>\<open>DataLoader.__new__\<close>. Objects live in a heap and are known by their address, so that
  being the same object is being at the same address; \<open>instances\<close> is the class
  attribute \<^verbatim>\<open>_instances\<close>.
\<close>

record registry =
  instances :: "string \<times> string option \<rightharpoonup> nat"
  heap :: "loader list"


definition DataLoader_new :: "string \<Rightarrow> string option \<Rightarrow> registry \<Rightarrow> nat \<times> registry" where
  "DataLoader_new b t s =
     (case instances s (b, t) of
        Some a \<Rightarrow> (a, s)
      | None \<Rightarrow>
          (let a = length (heap s);
               ld = \<lparr>baseurl = b, token = t, graphql_cache = []\<rparr>
           in (a, s\<lparr>instances := (instances s)((b, t) \<mapsto> a), heap := heap s @ [ld]\<rparr>)))"


subsection \<open>Connection information\<close>

text \<open>
  What \<^verbatim>\<open>get_info\<close> of the storage service returns: a dict whose values are strings,
  \<^verbatim>\<open>None\<close> or tuples. \<^verbatim>\<open>x[1]\<close> is the second element of a tuple or the second character
  of a string.
\<close>

datatype pyval = VNone | VStr string | VTuple "pyval list"

fun subscript1 :: "pyval \<Rightarrow> exn + pyval" where
  "subscript1 (VTuple xs) = (if 1 < length xs then Inr (xs ! 1) else Inl IndexError)"
| "subscript1 (VStr s) = (if 1 < length s then Inr (VStr [s ! 1]) else Inl IndexError)"
| "subscript1 VNone = Inl TypeError"

text \<open>
  The module's \<^verbatim>\<open>connection_info_map\<close>, and the record of every call of the provider.
  The provider may answer differently each time it is asked: it is given the number of
  calls made before.
\<close>

record connections =
  connection_info_map :: "string option \<rightharpoonup> (string \<times> pyval) list"
  lookups :: "string option list"

definition get_connection_info ::
  "(nat \<Rightarrow> string option \<Rightarrow> exn + (string \<times> pyval) list) \<Rightarrow> string option \<Rightarrow> connections \<Rightarrow>
   (exn + (string \<times> pyval) list) \<times> connections" where
  "get_connection_info get_info project_id s =
     (case connection_info_map s project_id of
        Some info \<Rightarrow> (Inr info, s)
      | None \<Rightarrow>
          (let s1 = s\<lparr>lookups := lookups s @ [project_id]\<rparr> in
           case get_info (length (lookups s)) project_id of
             Inl e \<Rightarrow> (Inl e, s1)
           | Inr info \<Rightarrow>
               (case map_of info ''auth'' of
                  None \<Rightarrow> (Inl (KeyError ''auth''), s1)
                | Some a \<Rightarrow>
                    (case subscript1 a of
                       Inl e \<Rightarrow> (Inl e, s1)
                     | Inr t \<Rightarrow>
                         (let info' = dict_setitem ''auth'' t info
                          in (Inr info',
                              s1\<lparr>connection_info_map :=
                                   (connection_info_map s1)(project_id \<mapsto> info')\<rparr>))))))"

subsection \<open>Notions used in the statements\<close>

text \<open>The request that \<^verbatim>\<open>_get\<close> hands to \<^verbatim>\<open>requests\<close>, and the one that \<^verbatim>\<open>_query\<close> posts.\<close>

definition built_get ::
  "loader \<Rightarrow> string \<Rightarrow> (string \<times> string option) list option \<Rightarrow> (string \<times> pval) list option \<Rightarrow>
   get_request" where
  "built_get self u h ps =
     \<lparr>url = baseurl self @ ''/'' @ u,
      headers = dict_setitem ''Token'' (token self) (case h of None \<Rightarrow> [] | Some x \<Rightarrow> x),
      params = ps\<rparr>"

definition built_post :: "loader \<Rightarrow> string \<Rightarrow> (string \<times> string) list \<Rightarrow> post_request" where
  "built_post self q kw =
     \<lparr>post_url = baseurl self @ ''/gql'', post_query = q, post_variables = kw,
      post_headers = [(''Token'', token self)]\<rparr>"

definition sent :: "http_call \<Rightarrow> world \<Rightarrow> world" where
  "sent c w = w\<lparr>wire := wire w @ [c]\<rparr>"

text \<open>
  What the transport answers to the call made last. Every operation of the client makes
  exactly one call, so in the world that an operation leaves behind this is the answer
  to the request of that operation.
\<close>

definition last_answer :: "env \<Rightarrow> world \<Rightarrow> (exn + response) option" where
  "last_answer env w =
     (case rev (wire w) of
        [] \<Rightarrow> None
      | GET req # cs \<Rightarrow> Some (http_get env req)
      | POST req # cs \<Rightarrow> Some (http_post env req))"

text \<open>
  An experiment of a well-formed answer to \<^verbatim>\<open>GET_ALL_ENSEMBLES\<close>: an object with a name
  and a list of ensemble objects.
\<close>

definition is_experiment :: "json \<Rightarrow> json \<times> (string \<times> json) list list \<Rightarrow> bool" where
  "is_experiment e v =
     (getitem e ''name'' = Inr (fst v) \<and> getitem e ''ensembles'' = Inr (JList (map JObj (snd v))))"

text \<open>
  Index labels. A label can be read as a 64-bit integer when it is such an integer or a
  numeric string, a string that \<^verbatim>\<open>int\<close> reads as one; \<open>numeral_value\<close> is that integer.
  A non-numeric string is one that \<^verbatim>\<open>int\<close> rejects. The coercion of an index fails on
  text when the first label that cannot be read as a 64-bit integer is a non-numeric
  string.
\<close>

definition int64_readable :: "label \<Rightarrow> bool" where
  "int64_readable l =
     (case l of
        LInt i \<Rightarrow> in_int64 i
      | LStr s \<Rightarrow> (case py_int s of None \<Rightarrow> False | Some i \<Rightarrow> in_int64 i))"

definition numeral_value :: "label \<Rightarrow> int" where
  "numeral_value l =
     (case l of
        LInt i \<Rightarrow> i
      | LStr s \<Rightarrow> (case py_int s of None \<Rightarrow> 0 | Some i \<Rightarrow> i))"

definition non_numeric :: "label \<Rightarrow> bool" where
  "non_numeric l = (case l of LInt i \<Rightarrow> False | LStr s \<Rightarrow> py_int s = None)"

definition fails_on_text :: "label list \<Rightarrow> bool" where
  "fails_on_text ls =
     (case find (\<lambda>l. \<not> int64_readable l) ls of None \<Rightarrow> False | Some l \<Rightarrow> non_numeric l)"

text \<open>
  An operation degraded: it returned the value \<open>d\<close> instead of raising, and what it added
  to the error log is the one entry \<open>e\<close>.
\<close>

definition degraded :: "(exn + 'a) \<times> world \<Rightarrow> world \<Rightarrow> 'a \<Rightarrow> exn \<Rightarrow> bool" where
  "degraded r w d e = (fst r = Inr d \<and> errlog (snd r) = errlog w @ [e])"



subsection \<open>Sample inputs\<close>

text \<open>
  A transport that answers every request with the same response, a decoder that reads
  the body of that response as the given document and nothing else, table readers that
  return the given table, and a transposition that casts nothing.
\<close>

definition fixed_env :: "response \<Rightarrow> json option \<Rightarrow> exn + dataframe \<Rightarrow> env" where
  "fixed_env resp doc tab =
     \<lparr>http_get = (\<lambda>req. Inr resp), http_post = (\<lambda>req. Inr resp),
      json_loads = (\<lambda>s. if s = content resp then doc else None),
      read_parquet = (\<lambda>b. tab), read_csv = (\<lambda>b i p. tab),
      transpose_cast = (\<lambda>df c. c)\<rparr>"

definition sample_loader :: loader where
  "sample_loader = \<lparr>baseurl = ''http://ert'', token = Some ''secret'', graphql_cache = []\<rparr>"

definition quiet :: world where
  "quiet = \<lparr>wire = [], errlog = []\<rparr>"

definition server_error :: response where
  "server_error = \<lparr>status_code = 500, content = ''Internal Server Error''\<rparr>"

definition html_page :: response where
  "html_page = \<lparr>status_code = 200, content = ''<html></html>''\<rparr>"

text \<open>A server that fails, and one that answers every request with a web page.\<close>

definition failing_env :: env where
  "failing_env = fixed_env server_error None (Inl (External ''ArrowInvalid''))"

definition html_env :: env where
  "html_env = fixed_env html_page None (Inl (External ''ArrowInvalid''))"

text \<open>A server whose answer to the priors query carries a priors field that is not JSON.\<close>

definition priors_doc :: json where
  "priors_doc = JObj [(''data'', JObj [(''experiment'', JObj [(''priors'', JStr ''{oops'')])])]"

definition priors_env :: env where
  "priors_env =
     fixed_env \<lparr>status_code = 200, content = ''(body)''\<rparr> (Some priors_doc)
       (Inl (External ''ArrowInvalid''))"

text \<open>Headers of a caller who sets a token of their own.\<close>

definition forged_headers :: "(string \<times> string option) list" where
  "forged_headers = [(''Token'', Some ''forged''), (''accept'', Some ''text/csv'')]"

text \<open>
  Answers to \<^verbatim>\<open>GET_ALL_ENSEMBLES\<close>: two experiments with one and two ensembles, and an
  experiment whose ensemble has a name of its own.
\<close>

definition two_experiments :: "json list" where
  "two_experiments =
     [JObj [(''name'', JStr ''A''), (''ensembles'', JList [JObj [(''id'', JInt 1)]])],
      JObj [(''name'', JStr ''B''),
            (''ensembles'', JList [JObj [(''id'', JInt 2)], JObj [(''id'', JInt 3)]])]]"

definition two_experiments_env :: env where
  "two_experiments_env =
     fixed_env \<lparr>status_code = 200, content = ''(body)''\<rparr>
       (Some (JObj [(''data'', JObj [(''experiments'', JList two_experiments)])]))
       (Inl (External ''ArrowInvalid''))"

definition named_ensemble :: "json list" where
  "named_ensemble =
     [JObj [(''name'', JStr ''A''),
            (''ensembles'', JList [JObj [(''id'', JInt 1), (''name'', JStr ''X'')]])]]"

definition named_ensemble_env :: env where
  "named_ensemble_env =
     fixed_env \<lparr>status_code = 200, content = ''(body)''\<rparr>
       (Some (JObj [(''data'', JObj [(''experiments'', JList named_ensemble)])]))
       (Inl (External ''ArrowInvalid''))"


text \<open>
  The module as loaded, a provider that answers with a base URL and a pair of user and
  token, and a provider that cannot reach the storage server.
\<close>

definition no_connections :: connections where
  "no_connections = \<lparr>connection_info_map = Map.empty, lookups = []\<rparr>"

definition storage_info :: "nat \<Rightarrow> string option \<Rightarrow> exn + (string \<times> pyval) list" where
  "storage_info k project_id =
     Inr [(''baseurl'', VStr ''http://ert''),
          (''auth'', VTuple [VStr ''__token__'', VStr ''secret''])]"

definition storage_down :: "nat \<Rightarrow> string option \<Rightarrow> exn + (string \<times> pyval) list" where
  "storage_down k project_id = Inl (External ''RuntimeError: no storage server'')"

text \<open>
  Tables as they come over the wire, with the column labels \<open>3, 1, 2\<close>, \<open>a, b\<close> and
  \<open>b, a\<close>, and two with the numeral of \<open>2 ^ 63\<close> as a column label; a misfit table; and servers that answer every request with status 200 and a
  body that the parquet reader, or the CSV reader, decodes to the given table.
\<close>

definition wire_321 :: dataframe where
  "wire_321 =
     \<lparr>columns = [LStr ''3'', LStr ''1'', LStr ''2''],
      rows = [(LInt 0, [CInt 30, CInt 10, CInt 20]), (LInt 1, [CInt 31, CInt 11, CInt 21])]\<rparr>"

definition wire_ab :: dataframe where
  "wire_ab =
     \<lparr>columns = [LStr ''a'', LStr ''b''],
      rows = [(LInt 0, [CInt 10, CInt 20]), (LInt 1, [CInt 11, CInt 21])]\<rparr>"

definition wire_ba :: dataframe where
  "wire_ba =
     \<lparr>columns = [LStr ''b'', LStr ''a''],
      rows = [(LInt 0, [CInt 10, CInt 20]), (LInt 1, [CInt 11, CInt 21])]\<rparr>"

definition wire_big :: dataframe where
  "wire_big =
     \<lparr>columns = [LStr ''9223372036854775808''], rows = [(LInt 0, [CInt 10])]\<rparr>"




definition parquet_env :: "dataframe \<Rightarrow> env" where
  "parquet_env tab = fixed_env \<lparr>status_code = 200, content = ''PAR1''\<rparr> None (Inr tab)"

section \<open>Properties\<close>

subsection \<open>The transport helpers\<close>

lemma fixed_env_simps [simp]:
  "http_get (fixed_env resp doc tab) req = Inr resp"
  "http_post (fixed_env resp doc tab) preq = Inr resp"
  "json_loads (fixed_env resp doc tab) s = (if s = content resp then doc else None)"
  "read_parquet (fixed_env resp doc tab) b = tab"
  "read_csv (fixed_env resp doc tab) b k fp = tab"
  "transpose_cast (fixed_env resp doc tab) df c = c"
  by (simp_all add: fixed_env_def)

lemma degradedI: "r = (Inr d, logger_error e (sent c w)) \<Longrightarrow> degraded r w d e"
  by (simp add: degraded_def logger_error_def sent_def)

lemma wire_sent [simp]: "wire (sent c w) = wire w @ [c]"
  by (simp add: sent_def)

lemma errlog_sent [simp]: "errlog (sent c w) = errlog w"
  by (simp add: sent_def)

lemma wire_logger_error [simp]: "wire (logger_error e w) = wire w"
  by (simp add: logger_error_def)

lemma errlog_logger_error [simp]: "errlog (logger_error e w) = errlog w @ [e]"
  by (simp add: logger_error_def)

lemma last_answer_sent_GET [simp]: "last_answer env (sent (GET r) w) = Some (http_get env r)"
  by (simp add: last_answer_def)

lemma last_answer_sent_POST [simp]: "last_answer env (sent (POST r) w) = Some (http_post env r)"
  by (simp add: last_answer_def)

lemma last_answer_logger_error [simp]: "last_answer env (logger_error e w) = last_answer env w"
  by (simp add: last_answer_def)

lemma DataLoader_get_eq:
  "DataLoader_get env self u h ps w =
     (case http_get env (built_get self u h ps) of
        Inl e \<Rightarrow> (Inl e, sent (GET (built_get self u h ps)) w)
      | Inr resp \<Rightarrow>
          if status_code resp \<noteq> 200
          then (Inl (DataLoaderException (url (built_get self u h ps)) (status_code resp)
                       (content resp)), sent (GET (built_get self u h ps)) w)
          else (Inr resp, sent (GET (built_get self u h ps)) w))"
  by (simp add: DataLoader_get_def requests_get_def and_then_def built_get_def sent_def
      split: sum.splits)

lemma DataLoader_query_eq:
  "DataLoader_query env self q kw w =
     (case http_post env (built_post self q kw) of
        Inl e \<Rightarrow> (Inl e, sent (POST (built_post self q kw)) w)
      | Inr resp \<Rightarrow>
          (case json_loads env (content resp) of
             None \<Rightarrow> (Inl (RuntimeError (status_code resp) (Inl (content resp))),
                      sent (POST (built_post self q kw)) w)
           | Some doc \<Rightarrow>
               if status_code resp \<noteq> 200
               then (Inl (RuntimeError (status_code resp) (Inr doc)),
                     sent (POST (built_post self q kw)) w)
               else (getitem doc ''data'', sent (POST (built_post self q kw)) w)))"
  by (simp add: DataLoader_query_def requests_post_def and_then_def built_post_def sent_def
      split: sum.splits option.splits)

lemma snd_then_pure [simp]: "snd (then_pure m k) = snd m"
  by (simp add: then_pure_def split: prod.splits sum.splits)

lemma snd_DataLoader_get [simp]:
  "snd (DataLoader_get env self u h ps w) = sent (GET (built_get self u h ps)) w"
  by (simp add: DataLoader_get_eq split: sum.splits)

lemma snd_DataLoader_query [simp]:
  "snd (DataLoader_query env self q kw w) = sent (POST (built_post self q kw)) w"
  by (simp add: DataLoader_query_eq split: sum.splits option.splits)

lemma except_DLE_world:
  "snd (except_DataLoaderException d r) = snd r \<or>
   (\<exists>e. snd (except_DataLoaderException d r) = logger_error e (snd r))"
  by (induction d r rule: except_DataLoaderException.induct) auto

lemma except_RTE_world:
  "snd (except_RuntimeError d r) = snd r \<or>
   (\<exists>e. snd (except_RuntimeError d r) = logger_error e (snd r))"
  by (induction d r rule: except_RuntimeError.induct) auto

lemma last_answer_except_DLE [simp]:
  "last_answer env (snd (except_DataLoaderException d r)) = last_answer env (snd r)"
  using except_DLE_world[of d r] by auto

lemma last_answer_except_RTE [simp]:
  "last_answer env (snd (except_RuntimeError d r)) = last_answer env (snd r)"
  using except_RTE_world[of d r] by auto

lemma wire_except_DLE [simp]:
  "wire (snd (except_DataLoaderException d r)) = wire (snd r)"
  using except_DLE_world[of d r] by auto

lemma wire_except_RTE [simp]:
  "wire (snd (except_RuntimeError d r)) = wire (snd r)"
  using except_RTE_world[of d r] by auto

lemma except_DLE_never:
  "fst (except_DataLoaderException d r) \<noteq> Inl (DataLoaderException u s b)"
  by (induction d r rule: except_DataLoaderException.induct) simp_all

lemma except_RTE_never: "fst (except_RuntimeError d r) \<noteq> Inl (RuntimeError s b)"
  by (induction d r rule: except_RuntimeError.induct) simp_all

text \<open>A REST operation whose request is answered with a status other than 200.\<close>

lemma rest_non200:
  assumes "http_get env (built_get self u h ps) = Inr resp" and "status_code resp \<noteq> 200"
  shows "except_DataLoaderException d (then_pure (DataLoader_get env self u h ps w) k) =
           (Inr d,
            logger_error
              (DataLoaderException (url (built_get self u h ps)) (status_code resp) (content resp))
              (sent (GET (built_get self u h ps)) w))"
  using assms by (simp add: DataLoader_get_eq then_pure_def)

text \<open>A REST operation whose request is answered with status 200.\<close>

lemma rest_200:
  assumes "http_get env (built_get self u h ps) = Inr resp" and "status_code resp = 200"
  shows "then_pure (DataLoader_get env self u h ps w) k =
           (k resp, sent (GET (built_get self u h ps)) w)"
  using assms by (simp add: DataLoader_get_eq then_pure_def)

text \<open>A query that is answered with a status other than 200 or with a body that is not JSON.\<close>

lemma gql_failed:
  assumes "http_post env (built_post self q kw) = Inr resp"
    and "status_code resp \<noteq> 200 \<or> json_loads env (content resp) = None"
  shows "except_RuntimeError d (then_pure (DataLoader_query env self q kw w) k) =
           (Inr d,
            logger_error
              (RuntimeError (status_code resp)
                 (case json_loads env (content resp) of
                    None \<Rightarrow> Inl (content resp)
                  | Some doc \<Rightarrow> Inr doc))
              (sent (POST (built_post self q kw)) w))"
  using assms by (auto simp add: DataLoader_query_eq then_pure_def split: option.splits)

lemma gql_200:
  assumes "http_post env (built_post self q kw) = Inr resp" and "status_code resp = 200"
    and "json_loads env (content resp) = Some doc"
  shows "then_pure (DataLoader_query env self q kw w) k =
           ((case getitem doc ''data'' of Inl e \<Rightarrow> Inl e | Inr data \<Rightarrow> k data),
            sent (POST (built_post self q kw)) w)"
  using assms by (simp add: DataLoader_query_eq then_pure_def split: sum.splits)

subsection \<open>REST operations answered with an error status\<close>

lemma get_ensemble_responses_non200:
  assumes "last_answer env (snd (get_ensemble_responses env self i w)) = Some (Inr resp)"
    and "status_code resp \<noteq> 200"
  shows "get_ensemble_responses env self i w =
           (Inr (JObj []),
            logger_error
              (DataLoaderException (baseurl self @ ''/ensembles/'' @ i @ ''/responses'')
                 (status_code resp) (content resp))
              (sent (GET (built_get self (''ensembles/'' @ i @ ''/responses'') None None)) w))"
  using assms unfolding get_ensemble_responses_def
  by (simp add: rest_non200) (simp add: built_get_def)

lemma get_ensemble_userdata_non200:
  assumes "last_answer env (snd (get_ensemble_userdata env self i w)) = Some (Inr resp)"
    and "status_code resp \<noteq> 200"
  shows "get_ensemble_userdata env self i w =
           (Inr (JObj []),
            logger_error
              (DataLoaderException (baseurl self @ ''/ensembles/'' @ i @ ''/userdata'')
                 (status_code resp) (content resp))
              (sent (GET (built_get self (''ensembles/'' @ i @ ''/userdata'') None None)) w))"
  using assms unfolding get_ensemble_userdata_def
  by (simp add: rest_non200) (simp add: built_get_def)

lemma get_ensemble_parameters_non200:
  assumes "last_answer env (snd (get_ensemble_parameters env self i w)) = Some (Inr resp)"
    and "status_code resp \<noteq> 200"
  shows "get_ensemble_parameters env self i w =
           (Inr (JList []),
            logger_error
              (DataLoaderException (baseurl self @ ''/ensembles/'' @ i @ ''/parameters'')
                 (status_code resp) (content resp))
              (sent (GET (built_get self (''ensembles/'' @ i @ ''/parameters'') None None)) w))"
  using assms unfolding get_ensemble_parameters_def
  by (simp add: rest_non200) (simp add: built_get_def)

lemma get_record_labels_non200:
  assumes "last_answer env (snd (get_record_labels env self i n w)) = Some (Inr resp)"
    and "status_code resp \<noteq> 200"
  shows "get_record_labels env self i n w =
           (Inr (JList []),
            logger_error
              (DataLoaderException (baseurl self @ ''/ensembles/'' @ i @ ''/records/'' @ n @ ''/labels'')
                 (status_code resp) (content resp))
              (sent (GET (built_get self (''ensembles/'' @ i @ ''/records/'' @ n @ ''/labels'')
                            None None)) w))"
  using assms unfolding get_record_labels_def
  by (simp add: rest_non200) (simp add: built_get_def)

lemma get_ensemble_record_observations_non200:
  assumes "last_answer env (snd (get_ensemble_record_observations env self i n w)) =
             Some (Inr resp)"
    and "status_code resp \<noteq> 200"
  shows "get_ensemble_record_observations env self i n w =
           (Inr (JList []),
            logger_error
              (DataLoaderException
                 (baseurl self @ ''/ensembles/'' @ i @ ''/records/'' @ n @ ''/observations'')
                 (status_code resp) (content resp))
              (sent (GET (built_get self
                            (''ensembles/'' @ i @ ''/records/'' @ n @ ''/observations'') None
                            (Some [(''realization_index'', PInt 0)]))) w))"
  using assms unfolding get_ensemble_record_observations_def
  by (simp add: rest_non200) (simp add: built_get_def)

lemma compute_misfit_non200:
  assumes "last_answer env (snd (compute_misfit env self i n b w)) = Some (Inr resp)"
    and "status_code resp \<noteq> 200"
  shows "compute_misfit env self i n b w =
           (Inr empty_frame,
            logger_error
              (DataLoaderException (baseurl self @ ''/compute/misfits'')
                 (status_code resp) (content resp))
              (sent (GET (built_get self ''compute/misfits'' None
                            (Some [(''ensemble_id'', PStr i), (''response_name'', PStr n),
                                   (''summary_misfits'', PBool b)]))) w))"
  using assms unfolding compute_misfit_def
  by (simp add: rest_non200) (simp add: built_get_def)

text \<open>The name and the query parameters that \<^verbatim>\<open>get_ensemble_parameter_data\<close> asks for.\<close>

lemma get_ensemble_parameter_data_eq:
  "get_ensemble_parameter_data env self i p w =
     except_DataLoaderException empty_frame
       (then_pure
          (DataLoader_get env self
             (''ensembles/'' @ i @ ''/records/'' @
               (case split_once ''::'' p of None \<Rightarrow> p | Some (n, l) \<Rightarrow> n))
             (Some [(''accept'', Some ''application/x-parquet'')])
             (Some (case split_once ''::'' p of None \<Rightarrow> [] | Some (n, l) \<Rightarrow> [(''label'', PStr l)]))
             w)
          (decode_parquet env))"
  by (simp add: get_ensemble_parameter_data_def split: option.splits)

lemma get_ensemble_parameter_data_non200:
  assumes "last_answer env (snd (get_ensemble_parameter_data env self i p w)) = Some (Inr resp)"
    and "status_code resp \<noteq> 200"
  shows "get_ensemble_parameter_data env self i p w =
           (Inr empty_frame,
            logger_error
              (DataLoaderException
                 (baseurl self @ ''/ensembles/'' @ i @ ''/records/'' @
                   (case split_once ''::'' p of None \<Rightarrow> p | Some (n, l) \<Rightarrow> n))
                 (status_code resp) (content resp))
              (sent (GET (built_get self
                            (''ensembles/'' @ i @ ''/records/'' @
                              (case split_once ''::'' p of None \<Rightarrow> p | Some (n, l) \<Rightarrow> n))
                            (Some [(''accept'', Some ''application/x-parquet'')])
                            (Some (case split_once ''::'' p of
                                     None \<Rightarrow> []
                                   | Some (n, l) \<Rightarrow> [(''label'', PStr l)])))) w))"
  using assms unfolding get_ensemble_parameter_data_eq
  by (simp add: rest_non200) (simp add: built_get_def)

text \<open>\<^verbatim>\<open>get_ensemble_record_data\<close>, by what the transport answers.\<close>

lemma snd_get_ensemble_record_data:
  "snd (get_ensemble_record_data env self i n w) =
     sent (GET (built_get self (''ensembles/'' @ i @ ''/records/'' @ n)
                  (Some [(''accept'', Some ''application/x-parquet'')]) None)) w \<or>
   (\<exists>e. snd (get_ensemble_record_data env self i n w) =
     logger_error e
       (sent (GET (built_get self (''ensembles/'' @ i @ ''/records/'' @ n)
                  (Some [(''accept'', Some ''application/x-parquet'')]) None)) w))"
proof -
  let ?m = "then_pure
              (DataLoader_get env self (''ensembles/'' @ i @ ''/records/'' @ n)
                 (Some [(''accept'', Some ''application/x-parquet'')]) None w)
              (decode_parquet env)"
  obtain r w1 where m: "?m = (r, w1)" by (cases ?m)
  then have "snd ?m = w1" by simp
  then have w1: "w1 = sent (GET (built_get self (''ensembles/'' @ i @ ''/records/'' @ n)
                  (Some [(''accept'', Some ''application/x-parquet'')]) None)) w"
    by simp
  show ?thesis
  proof (cases r)
    case (Inl e)
    with m w1 show ?thesis
      unfolding get_ensemble_record_data_def by (cases e) auto
  next
    case (Inr df)
    with m w1 show ?thesis
      unfolding get_ensemble_record_data_def by (simp split: sum.splits)
  qed
qed

lemma last_answer_get_ensemble_record_data [simp]:
  "last_answer env (snd (get_ensemble_record_data env self i n w)) =
     Some (http_get env (built_get self (''ensembles/'' @ i @ ''/records/'' @ n)
                  (Some [(''accept'', Some ''application/x-parquet'')]) None))"
  using snd_get_ensemble_record_data[of env self i n w] by auto

lemma get_ensemble_record_data_non200:
  assumes "last_answer env (snd (get_ensemble_record_data env self i n w)) = Some (Inr resp)"
    and "status_code resp \<noteq> 200"
  shows "get_ensemble_record_data env self i n w =
           (Inr empty_frame,
            logger_error
              (DataLoaderException (baseurl self @ ''/ensembles/'' @ i @ ''/records/'' @ n)
                 (status_code resp) (content resp))
              (sent (GET (built_get self (''ensembles/'' @ i @ ''/records/'' @ n)
                  (Some [(''accept'', Some ''application/x-parquet'')]) None)) w))"
proof -
  from assms(1) have "http_get env (built_get self (''ensembles/'' @ i @ ''/records/'' @ n)
                  (Some [(''accept'', Some ''application/x-parquet'')]) None) = Inr resp"
    by simp
  with assms(2) show ?thesis
    unfolding get_ensemble_record_data_def
    by (simp add: DataLoader_get_eq then_pure_def) (simp add: built_get_def)
qed

lemma get_ensemble_record_data_200:
  assumes "last_answer env (snd (get_ensemble_record_data env self i n w)) = Some (Inr resp)"
    and "status_code resp = 200" and "read_parquet env (content resp) = Inr tab"
  shows "get_ensemble_record_data env self i n w =
           ((case coerce_index (transpose_df env tab) of Inl e \<Rightarrow> Inl e | Inr df \<Rightarrow> sort_index df),
            sent (GET (built_get self (''ensembles/'' @ i @ ''/records/'' @ n)
                  (Some [(''accept'', Some ''application/x-parquet'')]) None)) w)"
proof -
  from assms(1) have "http_get env (built_get self (''ensembles/'' @ i @ ''/records/'' @ n)
                  (Some [(''accept'', Some ''application/x-parquet'')]) None) = Inr resp"
    by simp
  with assms(2,3) show ?thesis
    unfolding get_ensemble_record_data_def
    by (simp add: rest_200 decode_parquet_def split: sum.splits)
qed

lemma traverse_Inl:
  assumes "traverse f xs = Inl e"
  shows "\<exists>x\<in>set xs. f x = Inl e"
  using assms by (induction xs) (auto split: sum.splits)

lemma label_astype_int_Inl:
  assumes "label_astype_int l = Inl e"
  shows "e = TypeError \<or> e = OverflowError"
  using assms by (cases l) (auto split: option.splits if_splits)

lemma coerce_index_Inl:
  assumes "coerce_index df = Inl e"
  shows "e = OverflowError"
proof (cases "index_astype_int (index df)")
  case (Inl e')
  then obtain l where "label_astype_int l = Inl e'"
    unfolding index_astype_int_def using traverse_Inl by blast
  then have "e' = TypeError \<or> e' = OverflowError" by (rule label_astype_int_Inl)
  with Inl assms show ?thesis by (auto simp: coerce_index_def)
next
  case (Inr ls)
  with assms show ?thesis by (simp add: coerce_index_def)
qed

lemma sort_index_Inl:
  assumes "sort_index df = Inl e"
  shows "e = TypeError"
  using assms by (simp add: sort_index_def split: if_splits)

lemma get_ensemble_record_data_never:
  "fst (get_ensemble_record_data env self i n w) \<noteq> Inl (DataLoaderException u s b)"
proof -
  let ?m = "then_pure
              (DataLoader_get env self (''ensembles/'' @ i @ ''/records/'' @ n)
                 (Some [(''accept'', Some ''application/x-parquet'')]) None w)
              (decode_parquet env)"
  obtain r w1 where m: "?m = (r, w1)" by (cases ?m)
  show ?thesis
  proof (cases r)
    case (Inl e)
    with m show ?thesis
      unfolding get_ensemble_record_data_def by (cases e) simp_all
  next
    case (Inr df)
    have "coerce_index df \<noteq> Inl (DataLoaderException u s b)"
      using coerce_index_Inl by blast
    moreover have "\<And>d. sort_index d \<noteq> Inl (DataLoaderException u s b)"
      using sort_index_Inl by blast
    ultimately show ?thesis using m Inr
      unfolding get_ensemble_record_data_def by (auto split: sum.splits)
  qed
qed

subsection \<open>Queries answered with an error status or a body that is not JSON\<close>

lemma get_all_ensembles_failed:
  assumes "last_answer env (snd (get_all_ensembles env self w)) = Some (Inr resp)"
    and "status_code resp \<noteq> 200 \<or> json_loads env (content resp) = None"
  shows "get_all_ensembles env self w =
           (Inr (JList []),
            logger_error
              (RuntimeError (status_code resp)
                 (case json_loads env (content resp) of
                    None \<Rightarrow> Inl (content resp)
                  | Some doc \<Rightarrow> Inr doc))
              (sent (POST (built_post self GET_ALL_ENSEMBLES [])) w))"
  using assms unfolding get_all_ensembles_def
  by (simp add: gql_failed)

lemma get_ensemble_failed:
  assumes "last_answer env (snd (get_ensemble env self i w)) = Some (Inr resp)"
    and "status_code resp \<noteq> 200 \<or> json_loads env (content resp) = None"
  shows "get_ensemble env self i w =
           (Inr (JObj []),
            logger_error
              (RuntimeError (status_code resp)
                 (case json_loads env (content resp) of
                    None \<Rightarrow> Inl (content resp)
                  | Some doc \<Rightarrow> Inr doc))
              (sent (POST (built_post self GET_ENSEMBLE [(''id'', i)])) w))"
  using assms unfolding get_ensemble_def
  by (simp add: gql_failed)

lemma get_experiment_priors_failed:
  assumes "last_answer env (snd (get_experiment_priors env self i w)) = Some (Inr resp)"
    and "status_code resp \<noteq> 200 \<or> json_loads env (content resp) = None"
  shows "get_experiment_priors env self i w =
           (Inr (JObj []),
            logger_error
              (RuntimeError (status_code resp)
                 (case json_loads env (content resp) of
                    None \<Rightarrow> Inl (content resp)
                  | Some doc \<Rightarrow> Inr doc))
              (sent (POST (built_post self GET_PRIORS [(''id'', i)])) w))"
  using assms unfolding get_experiment_priors_def
  by (simp add: gql_failed)

lemma never_DataLoaderException:
  "fst (get_ensemble_responses env self i w) \<noteq> Inl (DataLoaderException u s b)"
  "fst (get_ensemble_userdata env self i w) \<noteq> Inl (DataLoaderException u s b)"
  "fst (get_ensemble_parameters env self i w) \<noteq> Inl (DataLoaderException u s b)"
  "fst (get_record_labels env self i n w) \<noteq> Inl (DataLoaderException u s b)"
  "fst (get_ensemble_parameter_data env self i p w) \<noteq> Inl (DataLoaderException u s b)"
  "fst (get_ensemble_record_observations env self i n w) \<noteq> Inl (DataLoaderException u s b)"
  "fst (compute_misfit env self i n c w) \<noteq> Inl (DataLoaderException u s b)"
  unfolding get_ensemble_responses_def get_ensemble_userdata_def get_ensemble_parameters_def
    get_record_labels_def get_ensemble_parameter_data_eq get_ensemble_record_observations_def
    compute_misfit_def
  by (rule except_DLE_never)+

lemma never_RuntimeError:
  "fst (get_all_ensembles env self w) \<noteq> Inl (RuntimeError s b)"
  "fst (get_ensemble env self i w) \<noteq> Inl (RuntimeError s b)"
  "fst (get_experiment_priors env self i w) \<noteq> Inl (RuntimeError s b)"
  unfolding get_all_ensembles_def get_ensemble_def get_experiment_priors_def
  by (rule except_RTE_never)+

lemma degraded_ex: "r = (Inr d, logger_error e (sent c w)) \<Longrightarrow> \<exists>e. degraded r w d e"
  by (auto simp add: degraded_def)

text \<open>Every operation hands exactly one call to the transport.\<close>

lemma one_call:
  "length (wire (snd (get_all_ensembles env self w))) = Suc (length (wire w))"
  "length (wire (snd (get_ensemble env self i w))) = Suc (length (wire w))"
  "length (wire (snd (get_experiment_priors env self i w))) = Suc (length (wire w))"
  "length (wire (snd (get_ensemble_responses env self i w))) = Suc (length (wire w))"
  "length (wire (snd (get_ensemble_userdata env self i w))) = Suc (length (wire w))"
  "length (wire (snd (get_ensemble_parameters env self i w))) = Suc (length (wire w))"
  "length (wire (snd (get_record_labels env self i n w))) = Suc (length (wire w))"
  "length (wire (snd (get_ensemble_parameter_data env self i p w))) = Suc (length (wire w))"
  "length (wire (snd (get_ensemble_record_observations env self i n w))) = Suc (length (wire w))"
  "length (wire (snd (compute_misfit env self i n c w))) = Suc (length (wire w))"
  by (simp_all add: get_all_ensembles_def get_ensemble_def get_experiment_priors_def
      get_ensemble_responses_def get_ensemble_userdata_def get_ensemble_parameters_def
      get_record_labels_def get_ensemble_parameter_data_eq get_ensemble_record_observations_def
      compute_misfit_def)

lemma one_call_record_data:
  "length (wire (snd (get_ensemble_record_data env self i n w))) = Suc (length (wire w))"
  using snd_get_ensemble_record_data[of env self i n w] by auto

subsection \<open>What the client catches, and what it lets through\<close>

text \<open>
  Claim C1, as stated, says that no operation ever raises: every failure is logged and
  turned into the empty value, also a body that is not JSON in a response with status 200
  and a priors field that is not a JSON document. The code does not do that. A REST
  operation catches \<^verbatim>\<open>DataLoaderException\<close> only and a query operation catches
  \<^verbatim>\<open>RuntimeError\<close> only. When the server answers \<^verbatim>\<open>get_ensemble_responses\<close> with status
  200 and a web page, \<^verbatim>\<open>resp.json()\<close> raises \<^verbatim>\<open>JSONDecodeError\<close>, which leaves the
  operation, and nothing is logged; the same happens in \<^verbatim>\<open>get_experiment_priors\<close> when
  the priors field is the text \<^verbatim>\<open>{oops\<close>.
\<close>

theorem decode_failures_escape:
  "fst (get_ensemble_responses html_env sample_loader ''e1'' quiet) = Inl JSONDecodeError \<and>
   errlog (snd (get_ensemble_responses html_env sample_loader ''e1'' quiet)) = [] \<and>
   fst (get_experiment_priors priors_env sample_loader ''x1'' quiet) = Inl JSONDecodeError \<and>
   errlog (snd (get_experiment_priors priors_env sample_loader ''x1'' quiet)) = []"
  by (simp add: get_ensemble_responses_def get_experiment_priors_def html_env_def priors_env_def
      html_page_def priors_doc_def quiet_def rest_200 gql_200 response_json_def loads_def sent_def)

text \<open>
  Claim C1, amended: for each of the eleven operations, the failure that the transport
  helper of the operation signals is turned into the empty value of the operation and
  logged once, and the exception of that helper never leaves the operation. For the three
  query operations the failure is an answer with a status other than 200 or with a body
  that is not JSON; for the eight REST operations it is an answer with a status other
  than 200.
\<close>

theorem handled_failures_degrade:
  "(last_answer env (snd (get_all_ensembles env self w)) = Some (Inr resp) \<and>
      (status_code resp \<noteq> 200 \<or> json_loads env (content resp) = None) \<longrightarrow>
      (\<exists>e. degraded (get_all_ensembles env self w) w (JList []) e)) \<and>
   (last_answer env (snd (get_ensemble env self i w)) = Some (Inr resp) \<and>
      (status_code resp \<noteq> 200 \<or> json_loads env (content resp) = None) \<longrightarrow>
      (\<exists>e. degraded (get_ensemble env self i w) w (JObj []) e)) \<and>
   (last_answer env (snd (get_experiment_priors env self i w)) = Some (Inr resp) \<and>
      (status_code resp \<noteq> 200 \<or> json_loads env (content resp) = None) \<longrightarrow>
      (\<exists>e. degraded (get_experiment_priors env self i w) w (JObj []) e)) \<and>
   (last_answer env (snd (get_ensemble_responses env self i w)) = Some (Inr resp) \<and>
      status_code resp \<noteq> 200 \<longrightarrow>
      (\<exists>e. degraded (get_ensemble_responses env self i w) w (JObj []) e)) \<and>
   (last_answer env (snd (get_ensemble_userdata env self i w)) = Some (Inr resp) \<and>
      status_code resp \<noteq> 200 \<longrightarrow>
      (\<exists>e. degraded (get_ensemble_userdata env self i w) w (JObj []) e)) \<and>
   (last_answer env (snd (get_ensemble_parameters env self i w)) = Some (Inr resp) \<and>
      status_code resp \<noteq> 200 \<longrightarrow>
      (\<exists>e. degraded (get_ensemble_parameters env self i w) w (JList []) e)) \<and>
   (last_answer env (snd (get_record_labels env self i n w)) = Some (Inr resp) \<and>
      status_code resp \<noteq> 200 \<longrightarrow>
      (\<exists>e. degraded (get_record_labels env self i n w) w (JList []) e)) \<and>
   (last_answer env (snd (get_ensemble_parameter_data env self i p w)) = Some (Inr resp) \<and>
      status_code resp \<noteq> 200 \<longrightarrow>
      (\<exists>e. degraded (get_ensemble_parameter_data env self i p w) w empty_frame e)) \<and>
   (last_answer env (snd (get_ensemble_record_data env self i n w)) = Some (Inr resp) \<and>
      status_code resp \<noteq> 200 \<longrightarrow>
      (\<exists>e. degraded (get_ensemble_record_data env self i n w) w empty_frame e)) \<and>
   (last_answer env (snd (get_ensemble_record_observations env self i n w)) = Some (Inr resp) \<and>
      status_code resp \<noteq> 200 \<longrightarrow>
      (\<exists>e. degraded (get_ensemble_record_observations env self i n w) w (JList []) e)) \<and>
   (last_answer env (snd (compute_misfit env self i n c w)) = Some (Inr resp) \<and>
      status_code resp \<noteq> 200 \<longrightarrow>
      (\<exists>e. degraded (compute_misfit env self i n c w) w empty_frame e)) \<and>
   fst (get_all_ensembles env self w) \<noteq> Inl (RuntimeError s d) \<and>
   fst (get_ensemble env self i w) \<noteq> Inl (RuntimeError s d) \<and>
   fst (get_experiment_priors env self i w) \<noteq> Inl (RuntimeError s d) \<and>
   fst (get_ensemble_responses env self i w) \<noteq> Inl (DataLoaderException u s b) \<and>
   fst (get_ensemble_userdata env self i w) \<noteq> Inl (DataLoaderException u s b) \<and>
   fst (get_ensemble_parameters env self i w) \<noteq> Inl (DataLoaderException u s b) \<and>
   fst (get_record_labels env self i n w) \<noteq> Inl (DataLoaderException u s b) \<and>
   fst (get_ensemble_parameter_data env self i p w) \<noteq> Inl (DataLoaderException u s b) \<and>
   fst (get_ensemble_record_data env self i n w) \<noteq> Inl (DataLoaderException u s b) \<and>
   fst (get_ensemble_record_observations env self i n w) \<noteq> Inl (DataLoaderException u s b) \<and>
   fst (compute_misfit env self i n c w) \<noteq> Inl (DataLoaderException u s b)"
  apply (intro conjI impI; (elim conjE)?)
  apply (rule degraded_ex, rule get_all_ensembles_failed; assumption)
  apply (rule degraded_ex, rule get_ensemble_failed; assumption)
  apply (rule degraded_ex, rule get_experiment_priors_failed; assumption)
  apply (rule degraded_ex, rule get_ensemble_responses_non200; assumption)
  apply (rule degraded_ex, rule get_ensemble_userdata_non200; assumption)
  apply (rule degraded_ex, rule get_ensemble_parameters_non200; assumption)
  apply (rule degraded_ex, rule get_record_labels_non200; assumption)
  apply (rule degraded_ex, rule get_ensemble_parameter_data_non200; assumption)
  apply (rule degraded_ex, rule get_ensemble_record_data_non200; assumption)
  apply (rule degraded_ex, rule get_ensemble_record_observations_non200; assumption)
  apply (rule degraded_ex, rule compute_misfit_non200; assumption)
  apply (rule never_RuntimeError never_DataLoaderException get_ensemble_record_data_never)+
  done

text \<open>
  The amended claim at work: a server that answers the three queries with status 200 and
  a web page, and a server that answers the eight REST requests with status 500.
\<close>

theorem handled_failures_degrade_witness:
  "last_answer html_env (snd (get_all_ensembles html_env sample_loader quiet)) =
     Some (Inr html_page) \<and>
   last_answer html_env (snd (get_ensemble html_env sample_loader ''e2'' quiet)) =
     Some (Inr html_page) \<and>
   last_answer html_env (snd (get_experiment_priors html_env sample_loader ''e2'' quiet)) =
     Some (Inr html_page) \<and>
   json_loads html_env (content html_page) = None \<and>
   degraded (get_all_ensembles html_env sample_loader quiet) quiet (JList [])
     (RuntimeError 200 (Inl ''<html></html>'')) \<and>
   degraded (get_ensemble html_env sample_loader ''e2'' quiet) quiet (JObj [])
     (RuntimeError 200 (Inl ''<html></html>'')) \<and>
   degraded (get_experiment_priors html_env sample_loader ''e2'' quiet) quiet (JObj [])
     (RuntimeError 200 (Inl ''<html></html>'')) \<and>
   last_answer failing_env (snd (get_ensemble_responses failing_env sample_loader ''e2'' quiet)) =
     Some (Inr server_error) \<and>
   last_answer failing_env (snd (get_ensemble_userdata failing_env sample_loader ''e2'' quiet)) =
     Some (Inr server_error) \<and>
   last_answer failing_env (snd (get_ensemble_parameters failing_env sample_loader ''e2'' quiet)) =
     Some (Inr server_error) \<and>
   last_answer failing_env
     (snd (get_record_labels failing_env sample_loader ''e2'' ''FOPR'' quiet)) =
     Some (Inr server_error) \<and>
   last_answer failing_env
     (snd (get_ensemble_parameter_data failing_env sample_loader ''e2'' ''FOPR'' quiet)) =
     Some (Inr server_error) \<and>
   last_answer failing_env
     (snd (get_ensemble_record_data failing_env sample_loader ''e2'' ''FOPR'' quiet)) =
     Some (Inr server_error) \<and>
   last_answer failing_env
     (snd (get_ensemble_record_observations failing_env sample_loader ''e2'' ''FOPR'' quiet)) =
     Some (Inr server_error) \<and>
   last_answer failing_env
     (snd (compute_misfit failing_env sample_loader ''e2'' ''FOPR'' True quiet)) =
     Some (Inr server_error) \<and>
   status_code server_error \<noteq> 200 \<and>
   fst (get_ensemble_responses failing_env sample_loader ''e2'' quiet) = Inr (JObj []) \<and>
   fst (get_ensemble_userdata failing_env sample_loader ''e2'' quiet) = Inr (JObj []) \<and>
   fst (get_ensemble_parameters failing_env sample_loader ''e2'' quiet) = Inr (JList []) \<and>
   fst (get_record_labels failing_env sample_loader ''e2'' ''FOPR'' quiet) = Inr (JList []) \<and>
   fst (get_ensemble_parameter_data failing_env sample_loader ''e2'' ''FOPR'' quiet) =
     Inr empty_frame \<and>
   fst (get_ensemble_record_data failing_env sample_loader ''e2'' ''FOPR'' quiet) =
     Inr empty_frame \<and>
   fst (get_ensemble_record_observations failing_env sample_loader ''e2'' ''FOPR'' quiet) =
     Inr (JList []) \<and>
   fst (compute_misfit failing_env sample_loader ''e2'' ''FOPR'' True quiet) = Inr empty_frame"
  using
    handled_failures_degrade [where env = html_env and self = sample_loader and w = quiet
      and i = "''e2''" and resp = html_page]
    handled_failures_degrade [where env = failing_env and self = sample_loader and w = quiet
      and i = "''e2''" and n = "''FOPR''" and p = "''FOPR''" and c = True
      and resp = server_error]
  by (simp add: html_env_def failing_env_def html_page_def server_error_def degraded_def
      get_all_ensembles_def get_ensemble_def get_experiment_priors_def
      get_ensemble_responses_def get_ensemble_userdata_def get_ensemble_parameters_def
      get_record_labels_def get_ensemble_parameter_data_eq get_ensemble_record_observations_def
      compute_misfit_def gql_failed quiet_def)

text \<open>
  Claim C5: when the GET of a REST operation is answered with a status other than 200,
  the operation does not raise; it returns the empty value of its shape (an empty
  mapping, an empty sequence or an empty table) and adds exactly one entry to the error
  log, the exception of \<^verbatim>\<open>_get\<close> with the URL, the status and the body.
\<close>

theorem rest_error_status_degrades:
  assumes "status_code resp \<noteq> 200"
  shows
    "(last_answer env (snd (get_ensemble_responses env self i w)) = Some (Inr resp) \<longrightarrow>
        degraded (get_ensemble_responses env self i w) w (JObj [])
          (DataLoaderException (baseurl self @ ''/ensembles/'' @ i @ ''/responses'')
             (status_code resp) (content resp))) \<and>
     (last_answer env (snd (get_ensemble_userdata env self i w)) = Some (Inr resp) \<longrightarrow>
        degraded (get_ensemble_userdata env self i w) w (JObj [])
          (DataLoaderException (baseurl self @ ''/ensembles/'' @ i @ ''/userdata'')
             (status_code resp) (content resp))) \<and>
     (last_answer env (snd (get_ensemble_parameters env self i w)) = Some (Inr resp) \<longrightarrow>
        degraded (get_ensemble_parameters env self i w) w (JList [])
          (DataLoaderException (baseurl self @ ''/ensembles/'' @ i @ ''/parameters'')
             (status_code resp) (content resp))) \<and>
     (last_answer env (snd (get_record_labels env self i n w)) = Some (Inr resp) \<longrightarrow>
        degraded (get_record_labels env self i n w) w (JList [])
          (DataLoaderException (baseurl self @ ''/ensembles/'' @ i @ ''/records/'' @ n @ ''/labels'')
             (status_code resp) (content resp))) \<and>
     (last_answer env (snd (get_ensemble_parameter_data env self i p w)) = Some (Inr resp) \<longrightarrow>
        degraded (get_ensemble_parameter_data env self i p w) w empty_frame
          (DataLoaderException
             (baseurl self @ ''/ensembles/'' @ i @ ''/records/'' @
               (case split_once ''::'' p of None \<Rightarrow> p | Some (a, l) \<Rightarrow> a))
             (status_code resp) (content resp))) \<and>
     (last_answer env (snd (get_ensemble_record_data env self i n w)) = Some (Inr resp) \<longrightarrow>
        degraded (get_ensemble_record_data env self i n w) w empty_frame
          (DataLoaderException (baseurl self @ ''/ensembles/'' @ i @ ''/records/'' @ n)
             (status_code resp) (content resp))) \<and>
     (last_answer env (snd (get_ensemble_record_observations env self i n w)) = Some (Inr resp) \<longrightarrow>
        degraded (get_ensemble_record_observations env self i n w) w (JList [])
          (DataLoaderException
             (baseurl self @ ''/ensembles/'' @ i @ ''/records/'' @ n @ ''/observations'')
             (status_code resp) (content resp))) \<and>
     (last_answer env (snd (compute_misfit env self i n c w)) = Some (Inr resp) \<longrightarrow>
        degraded (compute_misfit env self i n c w) w empty_frame
          (DataLoaderException (baseurl self @ ''/compute/misfits'')
             (status_code resp) (content resp)))"
  using assms
  by (intro conjI impI degradedI)
     (rule get_ensemble_responses_non200 get_ensemble_userdata_non200
        get_ensemble_parameters_non200 get_record_labels_non200
        get_ensemble_parameter_data_non200 get_ensemble_record_data_non200
        get_ensemble_record_observations_non200 compute_misfit_non200; assumption)+

text \<open>The eight REST operations against a server that answers 500.\<close>

theorem rest_error_status_degrades_witness:
  "status_code server_error \<noteq> 200 \<and>
   last_answer failing_env (snd (get_ensemble_responses failing_env sample_loader ''e1'' quiet)) =
     Some (Inr server_error) \<and>
   degraded (get_ensemble_responses failing_env sample_loader ''e1'' quiet) quiet (JObj [])
     (DataLoaderException ''http://ert/ensembles/e1/responses'' 500 ''Internal Server Error'') \<and>
   last_answer failing_env (snd (get_ensemble_userdata failing_env sample_loader ''e1'' quiet)) =
     Some (Inr server_error) \<and>
   degraded (get_ensemble_userdata failing_env sample_loader ''e1'' quiet) quiet (JObj [])
     (DataLoaderException ''http://ert/ensembles/e1/userdata'' 500 ''Internal Server Error'') \<and>
   last_answer failing_env (snd (get_ensemble_parameters failing_env sample_loader ''e1'' quiet)) =
     Some (Inr server_error) \<and>
   degraded (get_ensemble_parameters failing_env sample_loader ''e1'' quiet) quiet (JList [])
     (DataLoaderException ''http://ert/ensembles/e1/parameters'' 500 ''Internal Server Error'') \<and>
   last_answer failing_env
     (snd (get_record_labels failing_env sample_loader ''e1'' ''PORO'' quiet)) =
     Some (Inr server_error) \<and>
   degraded (get_record_labels failing_env sample_loader ''e1'' ''PORO'' quiet) quiet (JList [])
     (DataLoaderException ''http://ert/ensembles/e1/records/PORO/labels'' 500
        ''Internal Server Error'') \<and>
   last_answer failing_env
     (snd (get_ensemble_parameter_data failing_env sample_loader ''e1'' ''PORO::region1'' quiet)) =
     Some (Inr server_error) \<and>
   degraded (get_ensemble_parameter_data failing_env sample_loader ''e1'' ''PORO::region1'' quiet)
     quiet empty_frame
     (DataLoaderException ''http://ert/ensembles/e1/records/PORO'' 500 ''Internal Server Error'') \<and>
   last_answer failing_env
     (snd (get_ensemble_record_data failing_env sample_loader ''e1'' ''PORO'' quiet)) =
     Some (Inr server_error) \<and>
   degraded (get_ensemble_record_data failing_env sample_loader ''e1'' ''PORO'' quiet)
     quiet empty_frame
     (DataLoaderException ''http://ert/ensembles/e1/records/PORO'' 500 ''Internal Server Error'') \<and>
   last_answer failing_env
     (snd (get_ensemble_record_observations failing_env sample_loader ''e1'' ''PORO'' quiet)) =
     Some (Inr server_error) \<and>
   degraded (get_ensemble_record_observations failing_env sample_loader ''e1'' ''PORO'' quiet)
     quiet (JList [])
     (DataLoaderException ''http://ert/ensembles/e1/records/PORO/observations'' 500
        ''Internal Server Error'') \<and>
   last_answer failing_env
     (snd (compute_misfit failing_env sample_loader ''e1'' ''PORO'' False quiet)) =
     Some (Inr server_error) \<and>
   degraded (compute_misfit failing_env sample_loader ''e1'' ''PORO'' False quiet)
     quiet empty_frame
     (DataLoaderException ''http://ert/compute/misfits'' 500 ''Internal Server Error'')"
  using rest_error_status_degrades [where resp = server_error and env = failing_env
      and self = sample_loader and i = "''e1''" and w = quiet and p = "''PORO::region1''"
      and n = "''PORO''" and c = False]
  by (simp add: failing_env_def server_error_def sample_loader_def
      get_ensemble_responses_def get_ensemble_userdata_def get_ensemble_parameters_def
      get_record_labels_def get_ensemble_parameter_data_eq get_ensemble_record_observations_def
      compute_misfit_def split_once_def)

subsection \<open>Dicts\<close>

lemma map_of_dict_setitem: "map_of (dict_setitem k v d) = (map_of d)(k \<mapsto> v)"
  by (induction d) auto

lemma keys_dict_setitem: "fst ` set (dict_setitem k v d) = insert k (fst ` set d)"
  by (induction d) auto

lemma distinct_dict_setitem:
  "distinct (map fst d) \<Longrightarrow> distinct (map fst (dict_setitem k v d))"
  by (induction d) (auto simp: keys_dict_setitem)

lemma dict_setitem_fresh: "k \<notin> set (map fst d) \<Longrightarrow> dict_setitem k v d = d @ [(k, v)]"
  by (induction d) auto

lemma dict_merge_fresh:
  assumes "distinct (map fst e)" and "set (map fst e) \<inter> set (map fst d) = {}"
  shows "dict_merge d e = d @ e"
  using assms unfolding dict_merge_def
proof (induction e arbitrary: d)
  case Nil
  then show ?case by simp
next
  case (Cons kv e)
  obtain k v where kv: "kv = (k, v)" by (cases kv)
  from Cons.prems kv have fresh: "k \<notin> set (map fst d)" by auto
  from Cons.prems kv have "set (map fst e) \<inter> set (map fst (d @ [(k, v)])) = {}" by auto
  with Cons.IH[of "d @ [(k, v)]"] Cons.prems(1)
  have "fold (\<lambda>(k, v). dict_setitem k v) e (d @ [(k, v)]) = (d @ [(k, v)]) @ e" by simp
  with fresh kv show ?case by (simp add: dict_setitem_fresh)
qed

lemma map_of_fold_setitem:
  assumes "distinct (map fst e)"
  shows "map_of (fold (\<lambda>(k, v). dict_setitem k v) e d) x =
           (case map_of e x of None \<Rightarrow> map_of d x | Some y \<Rightarrow> Some y)"
  using assms
proof (induction e arbitrary: d)
  case Nil
  then show ?case by simp
next
  case (Cons kv e)
  obtain k v where kv: "kv = (k, v)" by (cases kv)
  from Cons.prems kv have "k \<notin> fst ` set e" by auto
  then have k: "map_of e k = None" by (simp add: map_of_eq_None_iff)
  from Cons.prems have "distinct (map fst e)" by simp
  from Cons.IH[OF this, of "dict_setitem k v d"] k kv show ?case
    by (auto simp: map_of_dict_setitem split: option.splits)
qed

lemma map_of_dict_merge:
  assumes "distinct (map fst e)"
  shows "map_of (dict_merge d e) = map_of d ++ map_of e"
proof
  fix x
  show "map_of (dict_merge d e) x = (map_of d ++ map_of e) x"
    using map_of_fold_setitem[OF assms, of d x]
    by (simp add: dict_merge_def map_add_def)
qed

lemma hd_dict_merge: "d \<noteq> [] \<Longrightarrow> fst (hd (dict_merge d e)) = fst (hd d)"
  unfolding dict_merge_def
proof (induction e arbitrary: d)
  case Nil
  then show ?case by simp
next
  case (Cons kv e)
  obtain k v where kv: "kv = (k, v)" by (cases kv)
  from Cons.prems have "dict_setitem k v d \<noteq> [] \<and> fst (hd (dict_setitem k v d)) = fst (hd d)"
    by (cases d) auto
  with Cons.IH[of "dict_setitem k v d"] kv show ?case by simp
qed

subsection \<open>The requests that are sent\<close>

text \<open>
  Claim C9: every request that goes through \<^verbatim>\<open>_get\<close> carries the header \<open>Token\<close> with the
  token of the client, whatever headers the caller gave: a \<open>Token\<close> entry of the caller
  is overwritten, the other entries of the caller are kept, and the header dict still
  has each key once.
\<close>

theorem get_sends_client_token:
  "\<exists>req. wire (snd (DataLoader_get env self u hdrs ps w)) = wire w @ [GET req] \<and>
         url req = baseurl self @ ''/'' @ u \<and> params req = ps \<and>
         map_of (headers req) ''Token'' = Some (token self) \<and>
         (\<forall>h. hdrs = Some h \<longrightarrow>
              (\<forall>k. k \<noteq> ''Token'' \<longrightarrow> map_of (headers req) k = map_of h k) \<and>
              (distinct (map fst h) \<longrightarrow> distinct (map fst (headers req))))"
  by (rule exI[of _ "built_get self u hdrs ps"])
     (auto simp: built_get_def map_of_dict_setitem distinct_dict_setitem)

text \<open>A caller who passes a token of their own: the request carries the token of the client.\<close>

theorem get_sends_client_token_witness:
  "map_of forged_headers ''Token'' = Some (Some ''forged'') \<and>
   distinct (map fst forged_headers) \<and>
   wire (snd (DataLoader_get failing_env sample_loader ''x'' (Some forged_headers) None quiet)) =
     [GET \<lparr>url = ''http://ert/x'',
           headers = [(''Token'', Some ''secret''), (''accept'', Some ''text/csv'')],
           params = None\<rparr>]"
  using get_sends_client_token [of failing_env sample_loader "''x''" "Some forged_headers" None quiet]
  by (simp add: forged_headers_def built_get_def sample_loader_def quiet_def)

text \<open>
  Claim C6: for the parameter name \<^verbatim>\<open>PORO::region1\<close> the request of
  \<^verbatim>\<open>get_ensemble_parameter_data\<close> goes to \<^verbatim>\<open>ensembles/{id}/records/PORO\<close> with the query
  parameter \<^verbatim>\<open>label=region1\<close>; for the parameter name \<^verbatim>\<open>PORO\<close> it goes to the same path
  with an empty dict of query parameters.
\<close>

theorem parameter_data_label_request:
  "wire (snd (get_ensemble_parameter_data env self i ''PORO::region1'' w)) =
     wire w @
     [GET \<lparr>url = baseurl self @ ''/ensembles/'' @ i @ ''/records/PORO'',
           headers = [(''accept'', Some ''application/x-parquet''), (''Token'', token self)],
           params = Some [(''label'', PStr ''region1'')]\<rparr>] \<and>
   wire (snd (get_ensemble_parameter_data env self i ''PORO'' w)) =
     wire w @
     [GET \<lparr>url = baseurl self @ ''/ensembles/'' @ i @ ''/records/PORO'',
           headers = [(''accept'', Some ''application/x-parquet''), (''Token'', token self)],
           params = Some []\<rparr>]"
  by (simp add: get_ensemble_parameter_data_eq split_once_def built_get_def)

subsection \<open>The list of all ensembles\<close>

lemma distinct_dict_merge:
  "distinct (map fst d) \<Longrightarrow> distinct (map fst (dict_merge d e))"
  unfolding dict_merge_def
  by (induction e arbitrary: d) (auto simp: distinct_dict_setitem)

lemma traverse_ensemble_record:
  assumes "getitem e ''name'' = Inr n"
  shows "traverse (ensemble_record e) (map JObj enss) =
           Inr (map (\<lambda>ens. JObj (dict_merge [(''name'', n)] ens)) enss)"
  using assms by (induction enss) (simp_all add: ensemble_record_def)

lemma experiment_records_ok:
  assumes "is_experiment e v"
  shows "experiment_records e =
           Inr (map (\<lambda>ens. JObj (dict_merge [(''name'', fst v)] ens)) (snd v))"
  using assms
  by (simp add: is_experiment_def experiment_records_def traverse_ensemble_record)

lemma traverse_experiment_records:
  assumes "list_all2 is_experiment exps views"
  shows "traverse experiment_records exps =
           Inr (map (\<lambda>v. map (\<lambda>ens. JObj (dict_merge [(''name'', fst v)] ens)) (snd v)) views)"
  using assms by (induction rule: list_all2_induct) (simp_all add: experiment_records_ok)

lemma flatten_experiments_ok:
  assumes "list_all2 is_experiment exps views"
  shows "flatten_experiments (JList exps) =
           Inr (JList (concat
             (map (\<lambda>v. map (\<lambda>ens. JObj (dict_merge [(''name'', fst v)] ens)) (snd v)) views)))"
  using traverse_experiment_records[OF assms] by (simp add: flatten_experiments_def)

lemma get_all_ensembles_200:
  assumes "last_answer env (snd (get_all_ensembles env self w)) = Some (Inr resp)"
    and "status_code resp = 200"
    and "json_loads env (content resp) = Some doc"
    and "getitem doc ''data'' = Inr data"
    and "getitem data ''experiments'' = Inr experiments"
    and "flatten_experiments experiments = Inr r"
  shows "get_all_ensembles env self w =
           (Inr r, sent (POST (built_post self GET_ALL_ENSEMBLES [])) w)"
  using assms unfolding get_all_ensembles_def
  by (simp add: gql_200)

lemma last_answer_get_all_ensembles [simp]:
  "last_answer env (snd (get_all_ensembles env self w)) =
     Some (http_post env (built_post self GET_ALL_ENSEMBLES []))"
  by (simp add: get_all_ensembles_def)

lemma concat_map_pairs:
  "concat (map (\<lambda>v. map (\<lambda>ens. f (fst v) ens) (snd v)) views) =
   map (\<lambda>p. f (fst p) (snd p)) (concat (map (\<lambda>v. map (Pair (fst v)) (snd v)) views))"
  by (induction views) (simp_all add: comp_def)

text \<open>
  Claim C8: when the query is answered with status 200 and a document whose
  \<^verbatim>\<open>data.experiments\<close> is a list of experiments, each with a name and a list of ensemble
  objects, \<^verbatim>\<open>get_all_ensembles\<close> returns one record per ensemble, in the order of the
  experiments and then of the ensembles of each experiment, and logs nothing. A record is
  the dict \<^verbatim>\<open>{"name": name, **ens}\<close>: for an ensemble without a key \<^verbatim>\<open>name\<close> it is the
  name of the experiment followed by the fields of the ensemble. The two experiments
  A (ensemble 1) and B (ensembles 2 and 3) give the three records A 1, B 2, B 3.
\<close>

theorem get_all_ensembles_flattens:
  assumes "last_answer env (snd (get_all_ensembles env self w)) = Some (Inr resp)"
    and "status_code resp = 200"
    and "json_loads env (content resp) = Some doc"
    and "getitem doc ''data'' = Inr data"
    and "getitem data ''experiments'' = Inr (JList exps)"
    and "list_all2 is_experiment exps views"
  shows
    "fst (get_all_ensembles env self w) =
       Inr (JList (concat
         (map (\<lambda>v. map (\<lambda>ens. JObj (dict_merge [(''name'', fst v)] ens)) (snd v)) views))) \<and>
     errlog (snd (get_all_ensembles env self w)) = errlog w \<and>
     (\<forall>(n :: json) ens. distinct (map fst ens) \<and> ''name'' \<notin> fst ` set ens \<longrightarrow>
        dict_merge [(''name'', n)] ens = (''name'', n) # ens) \<and>
     (exps =
        [JObj [(''name'', JStr ''A''), (''ensembles'', JList [JObj [(''id'', JInt 1)]])],
         JObj [(''name'', JStr ''B''),
               (''ensembles'', JList [JObj [(''id'', JInt 2)], JObj [(''id'', JInt 3)]])]] \<longrightarrow>
      fst (get_all_ensembles env self w) =
        Inr (JList [JObj [(''name'', JStr ''A''), (''id'', JInt 1)],
                    JObj [(''name'', JStr ''B''), (''id'', JInt 2)],
                    JObj [(''name'', JStr ''B''), (''id'', JInt 3)]]))"
proof (intro conjI allI impI)
  note all = get_all_ensembles_200[OF assms(1-5) flatten_experiments_ok[OF assms(6)]]
  show "fst (get_all_ensembles env self w) =
       Inr (JList (concat
         (map (\<lambda>v. map (\<lambda>ens. JObj (dict_merge [(''name'', fst v)] ens)) (snd v)) views)))"
    by (simp add: all)
  show "errlog (snd (get_all_ensembles env self w)) = errlog w"
    by (simp add: all)
next
  fix n :: json and ens :: "(string \<times> json) list"
  assume "distinct (map fst ens) \<and> ''name'' \<notin> fst ` set ens"
  then show "dict_merge [(''name'', n)] ens = (''name'', n) # ens"
    using dict_merge_fresh[of ens "[(''name'', n)]"] by auto
next
  assume ex: "exps =
        [JObj [(''name'', JStr ''A''), (''ensembles'', JList [JObj [(''id'', JInt 1)]])],
         JObj [(''name'', JStr ''B''),
               (''ensembles'', JList [JObj [(''id'', JInt 2)], JObj [(''id'', JInt 3)]])]]"
  have "flatten_experiments (JList exps) =
        Inr (JList [JObj [(''name'', JStr ''A''), (''id'', JInt 1)],
                    JObj [(''name'', JStr ''B''), (''id'', JInt 2)],
                    JObj [(''name'', JStr ''B''), (''id'', JInt 3)]])"
    unfolding ex
    by (simp add: flatten_experiments_def experiment_records_def ensemble_record_def
        dict_merge_def)
  from get_all_ensembles_200[OF assms(1-5) this]
  show "fst (get_all_ensembles env self w) =
        Inr (JList [JObj [(''name'', JStr ''A''), (''id'', JInt 1)],
                    JObj [(''name'', JStr ''B''), (''id'', JInt 2)],
                    JObj [(''name'', JStr ''B''), (''id'', JInt 3)]])"
    by simp
qed

text \<open>The answer with the two experiments A and B.\<close>

theorem get_all_ensembles_flattens_witness:
  "last_answer two_experiments_env (snd (get_all_ensembles two_experiments_env sample_loader quiet)) =
     Some (Inr \<lparr>status_code = 200, content = ''(body)''\<rparr>) \<and>
   json_loads two_experiments_env ''(body)'' =
     Some (JObj [(''data'', JObj [(''experiments'', JList two_experiments)])]) \<and>
   list_all2 is_experiment two_experiments
     [(JStr ''A'', [[(''id'', JInt 1)]]), (JStr ''B'', [[(''id'', JInt 2)], [(''id'', JInt 3)]])] \<and>
   fst (get_all_ensembles two_experiments_env sample_loader quiet) =
     Inr (JList [JObj [(''name'', JStr ''A''), (''id'', JInt 1)],
                 JObj [(''name'', JStr ''B''), (''id'', JInt 2)],
                 JObj [(''name'', JStr ''B''), (''id'', JInt 3)]]) \<and>
   errlog (snd (get_all_ensembles two_experiments_env sample_loader quiet)) = []"
proof -
  let ?resp = "\<lparr>status_code = 200, content = ''(body)''\<rparr>"
  let ?data = "JObj [(''experiments'', JList two_experiments)]"
  let ?views = "[(JStr ''A'', [[(''id'', JInt 1)]]),
                 (JStr ''B'', [[(''id'', JInt 2)], [(''id'', JInt 3)]])]"
  have 1: "last_answer two_experiments_env
             (snd (get_all_ensembles two_experiments_env sample_loader quiet)) = Some (Inr ?resp)"
    by (simp add: two_experiments_env_def)
  have 2: "status_code ?resp = 200" by simp
  have 3: "json_loads two_experiments_env (content ?resp) = Some (JObj [(''data'', ?data)])"
    by (simp add: two_experiments_env_def)
  have 4: "getitem (JObj [(''data'', ?data)]) ''data'' = Inr ?data" by simp
  have 5: "getitem ?data ''experiments'' = Inr (JList two_experiments)" by simp
  have 6: "list_all2 is_experiment two_experiments ?views"
    by (simp add: two_experiments_def is_experiment_def)
  from get_all_ensembles_flattens[OF 1 2 3 4 5 6]
  have "fst (get_all_ensembles two_experiments_env sample_loader quiet) =
     Inr (JList [JObj [(''name'', JStr ''A''), (''id'', JInt 1)],
                 JObj [(''name'', JStr ''B''), (''id'', JInt 2)],
                 JObj [(''name'', JStr ''B''), (''id'', JInt 3)]]) \<and>
   errlog (snd (get_all_ensembles two_experiments_env sample_loader quiet)) = []"
    by (simp add: two_experiments_def quiet_def)
  with 1 3 6 show ?thesis by simp
qed

text \<open>
  Claim C10: under the same conditions, each record is built by storing the fields of
  the ensemble into the dict that holds the experiment's name, so that an ensemble with
  a key \<^verbatim>\<open>name\<close> of its own overrides the name of the experiment: the record has the
  ensemble's value under \<^verbatim>\<open>name\<close>, and still one entry for that key.
\<close>

theorem ensemble_name_overrides:
  assumes "last_answer env (snd (get_all_ensembles env self w)) = Some (Inr resp)"
    and "status_code resp = 200"
    and "json_loads env (content resp) = Some doc"
    and "getitem doc ''data'' = Inr data"
    and "getitem data ''experiments'' = Inr (JList exps)"
    and "list_all2 is_experiment exps views"
  shows
    "fst (get_all_ensembles env self w) =
       Inr (JList (map (\<lambda>p. JObj (dict_merge [(''name'', fst p)] (snd p)))
                     (concat (map (\<lambda>v. map (Pair (fst v)) (snd v)) views)))) \<and>
     (\<forall>(n :: json) ens x. distinct (map fst ens) \<and> map_of ens ''name'' = Some x \<longrightarrow>
        map_of (dict_merge [(''name'', n)] ens) ''name'' = Some x \<and>
        distinct (map fst (dict_merge [(''name'', n)] ens)))"
proof (intro conjI allI impI)
  from get_all_ensembles_200[OF assms(1-5) flatten_experiments_ok[OF assms(6)]]
  show "fst (get_all_ensembles env self w) =
       Inr (JList (map (\<lambda>p. JObj (dict_merge [(''name'', fst p)] (snd p)))
                     (concat (map (\<lambda>v. map (Pair (fst v)) (snd v)) views))))"
    by (simp add: concat_map_pairs[of "\<lambda>n ens. JObj (dict_merge [(''name'', n)] ens)"])
next
  fix n :: json and ens :: "(string \<times> json) list" and x
  assume a: "distinct (map fst ens) \<and> map_of ens ''name'' = Some x"
  then show "map_of (dict_merge [(''name'', n)] ens) ''name'' = Some x"
    by (simp add: map_of_dict_merge map_add_def)
  show "distinct (map fst (dict_merge [(''name'', n)] ens))"
    by (rule distinct_dict_merge) simp
qed

text \<open>An ensemble named X in the experiment A: the record is named X.\<close>

theorem ensemble_name_overrides_witness:
  "last_answer named_ensemble_env (snd (get_all_ensembles named_ensemble_env sample_loader quiet)) =
     Some (Inr \<lparr>status_code = 200, content = ''(body)''\<rparr>) \<and>
   json_loads named_ensemble_env ''(body)'' =
     Some (JObj [(''data'', JObj [(''experiments'', JList named_ensemble)])]) \<and>
   list_all2 is_experiment named_ensemble
     [(JStr ''A'', [[(''id'', JInt 1), (''name'', JStr ''X'')]])] \<and>
   distinct (map fst [(''id'', JInt 1), (''name'', JStr ''X'')]) \<and>
   map_of [(''id'', JInt 1), (''name'', JStr ''X'')] ''name'' = Some (JStr ''X'') \<and>
   fst (get_all_ensembles named_ensemble_env sample_loader quiet) =
     Inr (JList [JObj [(''name'', JStr ''X''), (''id'', JInt 1)]])"
proof -
  let ?resp = "\<lparr>status_code = 200, content = ''(body)''\<rparr>"
  let ?data = "JObj [(''experiments'', JList named_ensemble)]"
  let ?views = "[(JStr ''A'', [[(''id'', JInt 1), (''name'', JStr ''X'')]])]"
  have 1: "last_answer named_ensemble_env
             (snd (get_all_ensembles named_ensemble_env sample_loader quiet)) = Some (Inr ?resp)"
    by (simp add: named_ensemble_env_def)
  have 2: "status_code ?resp = 200" by simp
  have 3: "json_loads named_ensemble_env (content ?resp) = Some (JObj [(''data'', ?data)])"
    by (simp add: named_ensemble_env_def)
  have 4: "getitem (JObj [(''data'', ?data)]) ''data'' = Inr ?data" by simp
  have 5: "getitem ?data ''experiments'' = Inr (JList named_ensemble)" by simp
  have 6: "list_all2 is_experiment named_ensemble ?views"
    by (simp add: named_ensemble_def is_experiment_def)
  from ensemble_name_overrides[OF 1 2 3 4 5 6]
  have "fst (get_all_ensembles named_ensemble_env sample_loader quiet) =
     Inr (JList [JObj [(''name'', JStr ''X''), (''id'', JInt 1)]])"
    by (simp add: dict_merge_def)
  with 1 3 6 show ?thesis by simp
qed

subsection \<open>One client per connection\<close>





lemma DataLoader_new_keeps_object:
  assumes "a < length (heap s)"
  shows "heap (snd (DataLoader_new b t s)) ! a = heap s ! a"
  using assms by (simp add: DataLoader_new_def Let_def nth_append split: option.splits)









subsection \<open>Connection information\<close>

lemma get_connection_info_cached:
  assumes "connection_info_map s p = Some info"
  shows "get_connection_info g p s = (Inr info, s)"
  using assms by (simp add: get_connection_info_def)

lemma get_connection_info_fresh:
  assumes "connection_info_map s p = None"
    and "g (length (lookups s)) p = Inr raw"
    and "map_of raw ''auth'' = Some a" and "subscript1 a = Inr t"
  shows "get_connection_info g p s =
           (Inr (dict_setitem ''auth'' t raw),
            s\<lparr>lookups := lookups s @ [p],
              connection_info_map := (connection_info_map s)(p \<mapsto> dict_setitem ''auth'' t raw)\<rparr>)"
  using assms by (simp add: get_connection_info_def Let_def)

lemma get_connection_info_raises:
  assumes "connection_info_map s p = None" and "g (length (lookups s)) p = Inl e"
  shows "get_connection_info g p s = (Inl e, s\<lparr>lookups := lookups s @ [p]\<rparr>)"
  using assms by (simp add: get_connection_info_def Let_def)

text \<open>
  Claim C4, as stated, says that for every project identifier two calls of
  \<^verbatim>\<open>get_connection_info\<close> make exactly one lookup. The code stores a result only after
  the provider has answered: when the provider raises, as it does when no storage server
  can be reached, the exception leaves the function, nothing is stored, and the second
  call asks the provider again. For no project and a provider that is down, the two
  calls make two lookups.
\<close>

theorem failed_lookup_is_repeated:
  "get_connection_info storage_down None no_connections =
     (Inl (External ''RuntimeError: no storage server''),
      \<lparr>connection_info_map = Map.empty, lookups = [None]\<rparr>) \<and>
   get_connection_info storage_down None
     (snd (get_connection_info storage_down None no_connections)) =
     (Inl (External ''RuntimeError: no storage server''),
      \<lparr>connection_info_map = Map.empty, lookups = [None, None]\<rparr>)"
  by (simp add: get_connection_info_raises no_connections_def storage_down_def)

text \<open>
  Claim C4, amended: for every project identifier (or no project, the key \<open>None\<close>) that
  is not in the cache and for which the provider answers the lookup with a dict whose
  \<^verbatim>\<open>auth\<close> entry has a second element, the first call makes one lookup, stores the
  answer, with the \<^verbatim>\<open>auth\<close> entry replaced by that element, under the identifier and
  returns it; the second call returns the stored value and leaves the state as it is,
  whatever the provider would answer now, so that the two calls together make exactly
  one lookup.
\<close>

theorem connection_info_looked_up_once:
  assumes "connection_info_map s p = None"
    and "get_info (length (lookups s)) p = Inr raw"
    and "map_of raw ''auth'' = Some a" and "subscript1 a = Inr t"
  shows
    "get_connection_info get_info p s =
       (Inr (dict_setitem ''auth'' t raw),
        s\<lparr>lookups := lookups s @ [p],
          connection_info_map := (connection_info_map s)(p \<mapsto> dict_setitem ''auth'' t raw)\<rparr>) \<and>
     get_connection_info get_info' p (snd (get_connection_info get_info p s)) =
       (Inr (dict_setitem ''auth'' t raw), snd (get_connection_info get_info p s)) \<and>
     lookups (snd (get_connection_info get_info' p (snd (get_connection_info get_info p s)))) =
       lookups s @ [p]"
proof -
  note first = get_connection_info_fresh[where g = get_info, OF assms]
  have "connection_info_map (snd (get_connection_info get_info p s)) p =
          Some (dict_setitem ''auth'' t raw)"
    by (simp add: first)
  then have second:
    "get_connection_info get_info' p (snd (get_connection_info get_info p s)) =
       (Inr (dict_setitem ''auth'' t raw), snd (get_connection_info get_info p s))"
    by (rule get_connection_info_cached)
  have "lookups (snd (get_connection_info get_info p s)) = lookups s @ [p]"
    by (simp add: first)
  with first second show ?thesis by simp
qed

text \<open>
  No project, and the project \<open>poly\<close>: the first call asks the provider and caches the
  answer, the second call answers from the cache although the provider is down.
\<close>

theorem connection_info_looked_up_once_witness:
  "connection_info_map no_connections None = None \<and>
   connection_info_map no_connections (Some ''poly'') = None \<and>
   storage_info (length (lookups no_connections)) None =
     Inr [(''baseurl'', VStr ''http://ert''),
          (''auth'', VTuple [VStr ''__token__'', VStr ''secret''])] \<and>
   storage_info (length (lookups no_connections)) (Some ''poly'') =
     Inr [(''baseurl'', VStr ''http://ert''),
          (''auth'', VTuple [VStr ''__token__'', VStr ''secret''])] \<and>
   subscript1 (VTuple [VStr ''__token__'', VStr ''secret'']) = Inr (VStr ''secret'') \<and>
   get_connection_info storage_info None no_connections =
     (Inr [(''baseurl'', VStr ''http://ert''), (''auth'', VStr ''secret'')],
      \<lparr>connection_info_map =
         [None \<mapsto> [(''baseurl'', VStr ''http://ert''), (''auth'', VStr ''secret'')]],
       lookups = [None]\<rparr>) \<and>
   get_connection_info storage_down None
     (snd (get_connection_info storage_info None no_connections)) =
     (Inr [(''baseurl'', VStr ''http://ert''), (''auth'', VStr ''secret'')],
      \<lparr>connection_info_map =
         [None \<mapsto> [(''baseurl'', VStr ''http://ert''), (''auth'', VStr ''secret'')]],
       lookups = [None]\<rparr>) \<and>
   get_connection_info storage_info (Some ''poly'') no_connections =
     (Inr [(''baseurl'', VStr ''http://ert''), (''auth'', VStr ''secret'')],
      \<lparr>connection_info_map =
         [Some ''poly'' \<mapsto> [(''baseurl'', VStr ''http://ert''), (''auth'', VStr ''secret'')]],
       lookups = [Some ''poly'']\<rparr>) \<and>
   get_connection_info storage_down (Some ''poly'')
     (snd (get_connection_info storage_info (Some ''poly'') no_connections)) =
     (Inr [(''baseurl'', VStr ''http://ert''), (''auth'', VStr ''secret'')],
      \<lparr>connection_info_map =
         [Some ''poly'' \<mapsto> [(''baseurl'', VStr ''http://ert''), (''auth'', VStr ''secret'')]],
       lookups = [Some ''poly'']\<rparr>)"
proof -
  let ?raw = "[(''baseurl'', VStr ''http://ert''),
               (''auth'', VTuple [VStr ''__token__'', VStr ''secret''])]"
  let ?a = "VTuple [VStr ''__token__'', VStr ''secret'']"
  have c: "connection_info_map no_connections None = None"
    "connection_info_map no_connections (Some ''poly'') = None"
    by (simp_all add: no_connections_def)
  have g: "storage_info (length (lookups no_connections)) None = Inr ?raw"
    "storage_info (length (lookups no_connections)) (Some ''poly'') = Inr ?raw"
    by (simp_all add: storage_info_def)
  have m: "map_of ?raw ''auth'' = Some ?a" by simp
  have t: "subscript1 ?a = Inr (VStr ''secret'')" by simp
  note n = connection_info_looked_up_once[where get_info = storage_info
      and get_info' = storage_down, OF c(1) g(1) m t]
  note p = connection_info_looked_up_once[where get_info = storage_info
      and get_info' = storage_down, OF c(2) g(2) m t]
  from n[THEN conjunct1] have n1: "get_connection_info storage_info None no_connections =
     (Inr [(''baseurl'', VStr ''http://ert''), (''auth'', VStr ''secret'')],
      \<lparr>connection_info_map =
         [None \<mapsto> [(''baseurl'', VStr ''http://ert''), (''auth'', VStr ''secret'')]],
       lookups = [None]\<rparr>)"
    by (simp add: no_connections_def)
  from n[THEN conjunct2, THEN conjunct1] have n2: "get_connection_info storage_down None
       (snd (get_connection_info storage_info None no_connections)) =
     (Inr [(''baseurl'', VStr ''http://ert''), (''auth'', VStr ''secret'')],
      snd (get_connection_info storage_info None no_connections))"
    by simp
  from p[THEN conjunct1] have p1: "get_connection_info storage_info (Some ''poly'') no_connections =
     (Inr [(''baseurl'', VStr ''http://ert''), (''auth'', VStr ''secret'')],
      \<lparr>connection_info_map =
         [Some ''poly'' \<mapsto> [(''baseurl'', VStr ''http://ert''), (''auth'', VStr ''secret'')]],
       lookups = [Some ''poly'']\<rparr>)"
    by (simp add: no_connections_def)
  from p[THEN conjunct2, THEN conjunct1] have p2: "get_connection_info storage_down (Some ''poly'')
       (snd (get_connection_info storage_info (Some ''poly'') no_connections)) =
     (Inr [(''baseurl'', VStr ''http://ert''), (''auth'', VStr ''secret'')],
      snd (get_connection_info storage_info (Some ''poly'') no_connections))"
    by simp
  from n2 p2 have "get_connection_info storage_down None
       (snd (get_connection_info storage_info None no_connections)) =
     (Inr [(''baseurl'', VStr ''http://ert''), (''auth'', VStr ''secret'')],
      \<lparr>connection_info_map =
         [None \<mapsto> [(''baseurl'', VStr ''http://ert''), (''auth'', VStr ''secret'')]],
       lookups = [None]\<rparr>)"
    and "get_connection_info storage_down (Some ''poly'')
       (snd (get_connection_info storage_info (Some ''poly'') no_connections)) =
     (Inr [(''baseurl'', VStr ''http://ert''), (''auth'', VStr ''secret'')],
      \<lparr>connection_info_map =
         [Some ''poly'' \<mapsto> [(''baseurl'', VStr ''http://ert''), (''auth'', VStr ''secret'')]],
       lookups = [Some ''poly'']\<rparr>)"
    by (simp_all add: n1 p1)
  with n1 p1 c g t show ?thesis by simp
qed

subsection \<open>Tables\<close>

lemma index_transpose_df: "index (transpose_df env df) = columns df"
  by (simp add: index_def transpose_df_def comp_def map_nth)



text \<open>What the cast of one label gives, by the kind of the label.\<close>

lemma label_astype_int_readable:
  assumes "int64_readable l"
  shows "label_astype_int l = Inr (LInt (numeral_value l))"
  using assms
  by (auto simp: int64_readable_def numeral_value_def split: label.splits option.splits)

lemma label_astype_int_text:
  assumes "non_numeric l"
  shows "label_astype_int l = Inl TypeError"
  using assms by (auto simp: non_numeric_def split: label.splits)

lemma label_astype_int_big:
  assumes "\<not> int64_readable l" and "\<not> non_numeric l"
  shows "label_astype_int l = Inl OverflowError"
  using assms
  by (auto simp: int64_readable_def non_numeric_def split: label.splits option.splits)

text \<open>The cast of an index stops at the first label that cannot be read.\<close>

lemma index_astype_int_cases:
  "index_astype_int ls =
     (case find (\<lambda>l. \<not> int64_readable l) ls of
        None \<Rightarrow> Inr (map (\<lambda>l. LInt (numeral_value l)) ls)
      | Some l \<Rightarrow> if non_numeric l then Inl TypeError else Inl OverflowError)"
  unfolding index_astype_int_def
proof (induction ls)
  case Nil
  then show ?case by simp
next
  case (Cons l ls)
  show ?case
  proof (cases "int64_readable l")
    case True
    with Cons show ?thesis
      by (simp add: label_astype_int_readable split: option.splits)
  next
    case False
    then show ?thesis
      by (cases "non_numeric l") (simp_all add: label_astype_int_text label_astype_int_big)
  qed
qed

lemma rows_set_index_map:
  "set_index df (map g (index df)) = df\<lparr>rows := map (\<lambda>r. (g (fst r), snd r)) (rows df)\<rparr>"
  by (simp add: set_index_def index_def zip_map1 zip_same_conv_map comp_def)

lemma coerce_index_cases:
  "coerce_index df =
     (case find (\<lambda>l. \<not> int64_readable l) (index df) of
        None \<Rightarrow> Inr (df\<lparr>rows := map (\<lambda>r. (LInt (numeral_value (fst r)), snd r)) (rows df)\<rparr>)
      | Some l \<Rightarrow> if non_numeric l then Inr df else Inl OverflowError)"
  using rows_set_index_map[of df "\<lambda>l. LInt (numeral_value l)"]
  by (simp add: coerce_index_def index_astype_int_cases split: option.splits)

lemma sort_index_ints:
  assumes "list_all is_int_label (index df)"
  shows "sort_index df = Inr (df\<lparr>rows := sort_key (\<lambda>r. int_key (fst r)) (rows df)\<rparr>)"
  using assms by (simp add: sort_index_def)

lemma sort_index_strs:
  assumes "list_all is_str_label (index df)"
  shows "sort_index df = Inr (df\<lparr>rows := sort_key (\<lambda>r. str_key (fst r)) (rows df)\<rparr>)"
proof (cases "rows df")
  case Nil
  then show ?thesis by (simp add: sort_index_def index_def)
next
  case (Cons r rs)
  with assms have "is_str_label (fst r)" by (simp add: index_def)
  then have "\<not> is_int_label (fst r)" by (cases "fst r") simp_all
  with Cons have "\<not> list_all is_int_label (index df)" by (simp add: index_def)
  with assms show ?thesis by (simp add: sort_index_def)
qed



lemma all_readable_iff: "list_all int64_readable ls \<longleftrightarrow> find (\<lambda>l. \<not> int64_readable l) ls = None"
  by (auto simp add: find_None_iff list_all_iff)

text \<open>
  \<^verbatim>\<open>get_ensemble_record_data\<close> on a decoded table, by the labels of its columns: every
  label can be read; the first that cannot is text, and all are strings; the first that
  cannot is text, and some label is an integer; the first that cannot is too big.
\<close>

lemma record_data_numeric:
  assumes "last_answer env (snd (get_ensemble_record_data env self i n w)) = Some (Inr resp)"
    and "status_code resp = 200" and "read_parquet env (content resp) = Inr tab"
    and "list_all int64_readable (columns tab)"
  shows "fst (get_ensemble_record_data env self i n w) =
           Inr ((transpose_df env tab)
                  \<lparr>rows := sort_key (\<lambda>r. int_key (fst r))
                             (map (\<lambda>r. (LInt (numeral_value (fst r)), snd r))
                                (rows (transpose_df env tab)))\<rparr>)"
proof -
  let ?t = "transpose_df env tab"
  let ?c = "?t\<lparr>rows := map (\<lambda>r. (LInt (numeral_value (fst r)), snd r)) (rows ?t)\<rparr>"
  from assms(4) have "coerce_index ?t = Inr ?c"
    by (simp add: coerce_index_cases index_transpose_df all_readable_iff)
  moreover have "list_all is_int_label (index ?c)"
    by (simp add: index_def list_all_iff)
  then have "sort_index ?c = Inr (?c\<lparr>rows := sort_key (\<lambda>r. int_key (fst r)) (rows ?c)\<rparr>)"
    by (rule sort_index_ints)
  ultimately show ?thesis
    by (simp add: get_ensemble_record_data_200[OF assms(1-3)])
qed

lemma record_data_text:
  assumes "last_answer env (snd (get_ensemble_record_data env self i n w)) = Some (Inr resp)"
    and "status_code resp = 200" and "read_parquet env (content resp) = Inr tab"
    and "list_all is_str_label (columns tab)" and "fails_on_text (columns tab)"
  shows "fst (get_ensemble_record_data env self i n w) =
           Inr ((transpose_df env tab)
                  \<lparr>rows := sort_key (\<lambda>r. str_key (fst r)) (rows (transpose_df env tab))\<rparr>)"
proof -
  let ?t = "transpose_df env tab"
  from assms(5) have "coerce_index ?t = Inr ?t"
    by (auto simp: coerce_index_cases index_transpose_df fails_on_text_def split: option.splits)
  moreover from assms(4) have "list_all is_str_label (index ?t)"
    by (simp add: index_transpose_df)
  then have "sort_index ?t = Inr (?t\<lparr>rows := sort_key (\<lambda>r. str_key (fst r)) (rows ?t)\<rparr>)"
    by (rule sort_index_strs)
  ultimately show ?thesis
    by (simp add: get_ensemble_record_data_200[OF assms(1-3)])
qed


lemma record_data_big:
  assumes "last_answer env (snd (get_ensemble_record_data env self i n w)) = Some (Inr resp)"
    and "status_code resp = 200" and "read_parquet env (content resp) = Inr tab"
    and "\<not> list_all int64_readable (columns tab)" and "\<not> fails_on_text (columns tab)"
  shows "fst (get_ensemble_record_data env self i n w) = Inl OverflowError"
proof -
  let ?t = "transpose_df env tab"
  from assms(4) obtain l where "find (\<lambda>l. \<not> int64_readable l) (columns tab) = Some l"
    by (auto simp: all_readable_iff)
  with assms(5) have "coerce_index ?t = Inl OverflowError"
    by (simp add: coerce_index_cases index_transpose_df fails_on_text_def)
  then show ?thesis
    by (simp add: get_ensemble_record_data_200[OF assms(1-3)])
qed

lemma errlog_record_data_200:
  assumes "last_answer env (snd (get_ensemble_record_data env self i n w)) = Some (Inr resp)"
    and "status_code resp = 200" and "read_parquet env (content resp) = Inr tab"
  shows "errlog (snd (get_ensemble_record_data env self i n w)) = errlog w"
  by (simp add: get_ensemble_record_data_200[OF assms])

lemma py_int_samples:
  "py_int ''1'' = Some 1" "py_int ''2'' = Some 2" "py_int ''3'' = Some 3"
  "py_int ''a'' = None" "py_int ''b'' = None"
  "py_int ''9223372036854775808'' = Some 9223372036854775808"
  by (simp_all add: py_int_def strip_def is_space_def py_nat_def digit_val_def)

lemma label_samples:
  "int64_readable (LStr ''1'')" "int64_readable (LStr ''2'')" "int64_readable (LStr ''3'')"
  "numeral_value (LStr ''1'') = 1" "numeral_value (LStr ''2'') = 2" "numeral_value (LStr ''3'') = 3"
  "non_numeric (LStr ''a'')" "non_numeric (LStr ''b'')"
  "\<not> int64_readable (LStr ''a'')" "\<not> int64_readable (LStr ''b'')"
  "\<not> int64_readable (LStr ''9223372036854775808'')"
  "\<not> non_numeric (LStr ''9223372036854775808'')"
  by (simp_all add: int64_readable_def numeral_value_def non_numeric_def py_int_samples in_int64_def)


lemma last_answer_parquet_env:
  "last_answer (parquet_env tab) (snd (get_ensemble_record_data (parquet_env tab) self i n w)) =
     Some (Inr \<lparr>status_code = 200, content = ''PAR1''\<rparr>)"
  by (simp add: parquet_env_def)

lemma read_parquet_parquet_env:
  "read_parquet (parquet_env tab) (content \<lparr>status_code = 200, content = ''PAR1''\<rparr>) = Inr tab"
  by (simp add: parquet_env_def)

lemma transpose_samples:
  "transpose_df (parquet_env t) wire_321 =
      \<lparr>columns = [LInt 0, LInt 1],
       rows = [(LStr ''3'', [CInt 30, CInt 31]), (LStr ''1'', [CInt 10, CInt 11]),
               (LStr ''2'', [CInt 20, CInt 21])]\<rparr>"
  "transpose_df (parquet_env t) wire_ab =
      \<lparr>columns = [LInt 0, LInt 1],
       rows = [(LStr ''a'', [CInt 10, CInt 11]), (LStr ''b'', [CInt 20, CInt 21])]\<rparr>"
  "transpose_df (parquet_env t) wire_ba =
      \<lparr>columns = [LInt 0, LInt 1],
       rows = [(LStr ''b'', [CInt 10, CInt 11]), (LStr ''a'', [CInt 20, CInt 21])]\<rparr>"
  by (simp_all add: transpose_df_def wire_321_def wire_ab_def wire_ba_def index_def upt_rec
      parquet_env_def)

text \<open>
  Claim C2, as stated, does not hold. The wire table with the columns \<open>b, a\<close> has a
  non-numeric index after transposition; the cast fails and is caught, but
  \<^verbatim>\<open>sort_index\<close> runs all the same (l.279 is outside the \<^verbatim>\<open>try\<close>) and the rows come back in
  the order \<open>a, b\<close>, not in the original order. The wire table with the one column
  \<open>9223372036854775808\<close> has an index of numeric strings, \<^verbatim>\<open>int\<close> reads the label, but the
  value is outside the 64-bit range: the cast raises \<^verbatim>\<open>OverflowError\<close>, which the handler
  for \<^verbatim>\<open>TypeError\<close> does not take, and no table is returned.
\<close>

theorem index_reordered_or_refused:
  "read_parquet (parquet_env wire_ba) ''PAR1'' = Inr wire_ba \<and>
   rows (transpose_df (parquet_env wire_ba) wire_ba) =
     [(LStr ''b'', [CInt 10, CInt 11]), (LStr ''a'', [CInt 20, CInt 21])] \<and>
   non_numeric (LStr ''b'') \<and> non_numeric (LStr ''a'') \<and>
   fst (get_ensemble_record_data (parquet_env wire_ba) sample_loader ''e1'' ''FOPR'' quiet) =
     Inr \<lparr>columns = [LInt 0, LInt 1],
          rows = [(LStr ''a'', [CInt 20, CInt 21]), (LStr ''b'', [CInt 10, CInt 11])]\<rparr> \<and>
   read_parquet (parquet_env wire_big) ''PAR1'' = Inr wire_big \<and>
   columns wire_big = [LStr ''9223372036854775808''] \<and>
   py_int ''9223372036854775808'' = Some 9223372036854775808 \<and>
   fst (get_ensemble_record_data (parquet_env wire_big) sample_loader ''e1'' ''FOPR'' quiet) =
     Inl OverflowError"
proof -
  have rp: "read_parquet (parquet_env wire_ba) ''PAR1'' = Inr wire_ba"
    "read_parquet (parquet_env wire_big) ''PAR1'' = Inr wire_big"
    by (simp_all add: parquet_env_def)
  have "fst (get_ensemble_record_data (parquet_env wire_ba) sample_loader ''e1'' ''FOPR'' quiet) =
      Inr ((transpose_df (parquet_env wire_ba) wire_ba)
             \<lparr>rows := sort_key (\<lambda>r. str_key (fst r))
                        (rows (transpose_df (parquet_env wire_ba) wire_ba))\<rparr>)"
    by (rule record_data_text[OF last_answer_parquet_env _ read_parquet_parquet_env])
       (simp_all add: wire_ba_def fails_on_text_def label_samples)
  then have ba: "fst (get_ensemble_record_data (parquet_env wire_ba) sample_loader ''e1'' ''FOPR'' quiet) =
      Inr \<lparr>columns = [LInt 0, LInt 1],
           rows = [(LStr ''a'', [CInt 20, CInt 21]), (LStr ''b'', [CInt 10, CInt 11])]\<rparr>"
    by (simp add: transpose_samples)
  have big: "fst (get_ensemble_record_data (parquet_env wire_big) sample_loader ''e1'' ''FOPR'' quiet) =
      Inl OverflowError"
    by (rule record_data_big[OF last_answer_parquet_env _ read_parquet_parquet_env])
       (simp_all add: wire_big_def fails_on_text_def label_samples)
  have c: "columns wire_big = [LStr ''9223372036854775808'']"
    by (simp add: wire_big_def)
  from rp ba big c show ?thesis
    by (simp add: transpose_samples label_samples py_int_samples)
qed

text \<open>
  Claim C2, amended. The response has status 200 and the parquet reader decodes its body
  to \<open>tab\<close>; the column labels of \<open>tab\<close> are the index after transposition.

  \<^item> When every label is an integer of the 64-bit range, or a string that \<^verbatim>\<open>int\<close> reads as
    one, \<^verbatim>\<open>get_ensemble_record_data\<close> returns a table whose index labels are integers in
    ascending order, and whose rows are the rows of the transposed table, each under the
    integer value of its label.
  \<^item> When every label is a string and the first label that cannot be read so is no numeral
    at all, \<^verbatim>\<open>get_ensemble_record_data\<close> returns a table whose index labels are strings in
    ascending order and whose rows are the rows of the transposed table; it is the
    transposed table itself when the labels were ascending already.

  In both cases nothing is written to the error log.
\<close>

theorem record_data_index:
  assumes "last_answer env (snd (get_ensemble_record_data env self i n w)) = Some (Inr resp)"
    and "status_code resp = 200" and "read_parquet env (content resp) = Inr tab"
  shows
    "(list_all int64_readable (columns tab) \<longrightarrow>
        (\<exists>out. fst (get_ensemble_record_data env self i n w) = Inr out \<and>
           list_all is_int_label (index out) \<and>
           sorted (map int_key (index out)) \<and>
           mset (rows out) =
             mset (map (\<lambda>r. (LInt (numeral_value (fst r)), snd r))
                     (rows (transpose_df env tab))))) \<and>
     (list_all is_str_label (columns tab) \<and> fails_on_text (columns tab) \<longrightarrow>
        (\<exists>out. fst (get_ensemble_record_data env self i n w) = Inr out \<and>
           list_all is_str_label (index out) \<and>
           sorted (map str_key (index out)) \<and>
           mset (rows out) = mset (rows (transpose_df env tab)) \<and>
           (sorted (map str_key (columns tab)) \<longrightarrow> out = transpose_df env tab))) \<and>
     errlog (snd (get_ensemble_record_data env self i n w)) = errlog w"
proof (intro conjI impI)
  show "errlog (snd (get_ensemble_record_data env self i n w)) = errlog w"
    by (rule errlog_record_data_200[OF assms])
next
  let ?t = "transpose_df env tab"
  assume num: "list_all int64_readable (columns tab)"
  let ?c = "map (\<lambda>r. (LInt (numeral_value (fst r)), snd r)) (rows ?t)"
  let ?out = "?t\<lparr>rows := sort_key (\<lambda>r. int_key (fst r)) ?c\<rparr>"
  have "list_all is_int_label (index ?out)"
    by (simp add: index_def list_all_iff)
  moreover have "sorted (map int_key (index ?out))"
    using sorted_sort_key[of "\<lambda>r. int_key (fst r)" ?c]
    by (simp add: index_def comp_def)
  moreover have "mset (rows ?out) = mset ?c" by simp
  ultimately
  show "\<exists>out. fst (get_ensemble_record_data env self i n w) = Inr out \<and>
         list_all is_int_label (index out) \<and>
         sorted (map int_key (index out)) \<and>
         mset (rows out) = mset ?c"
    using record_data_numeric[OF assms num] by blast
next
  let ?t = "transpose_df env tab"
  assume tx: "list_all is_str_label (columns tab) \<and> fails_on_text (columns tab)"
  let ?out = "?t\<lparr>rows := sort_key (\<lambda>r. str_key (fst r)) (rows ?t)\<rparr>"
  from tx have "list_all is_str_label (index ?t)"
    by (simp add: index_transpose_df)
  then have "list_all is_str_label (index ?out)"
    by (simp add: index_def list_all_iff)
  moreover have "sorted (map str_key (index ?out))"
    using sorted_sort_key[of "\<lambda>r. str_key (fst r)" "rows ?t"]
    by (simp add: index_def comp_def)
  moreover have "mset (rows ?out) = mset (rows ?t)" by simp
  moreover have "sorted (map str_key (columns tab)) \<longrightarrow> ?out = ?t"
  proof
    assume "sorted (map str_key (columns tab))"
    then have "sorted (map str_key (map fst (rows ?t)))"
      using index_transpose_df[of env tab] by (simp add: index_def)
    then have "sorted (map (\<lambda>r. str_key (fst r)) (rows ?t))"
      by (simp add: comp_def)
    then have "sort_key (\<lambda>r. str_key (fst r)) (rows ?t) = rows ?t"
      by (rule sort_key_id_if_sorted)
    then show "?out = ?t" by simp
  qed
  ultimately
  show "\<exists>out. fst (get_ensemble_record_data env self i n w) = Inr out \<and>
         list_all is_str_label (index out) \<and>
         sorted (map str_key (index out)) \<and>
         mset (rows out) = mset (rows (transpose_df env tab)) \<and>
         (sorted (map str_key (columns tab)) \<longrightarrow> out = transpose_df env tab)"
    using record_data_text[OF assms] tx by blast
qed

text \<open>
  The two tables of the claim: the index \<open>3, 1, 2\<close> comes back as the integers
  \<open>1, 2, 3\<close>, the index \<open>a, b\<close> comes back as it was.
\<close>

theorem record_data_index_witness:
  "read_parquet (parquet_env wire_321) ''PAR1'' = Inr wire_321 \<and>
   list_all int64_readable (columns wire_321) \<and>
   fst (get_ensemble_record_data (parquet_env wire_321) sample_loader ''e1'' ''FOPR'' quiet) =
     Inr \<lparr>columns = [LInt 0, LInt 1],
          rows = [(LInt 1, [CInt 10, CInt 11]), (LInt 2, [CInt 20, CInt 21]),
                  (LInt 3, [CInt 30, CInt 31])]\<rparr> \<and>
   read_parquet (parquet_env wire_ab) ''PAR1'' = Inr wire_ab \<and>
   list_all is_str_label (columns wire_ab) \<and> fails_on_text (columns wire_ab) \<and>
   sorted (map str_key (columns wire_ab)) \<and>
   fst (get_ensemble_record_data (parquet_env wire_ab) sample_loader ''e1'' ''FOPR'' quiet) =
     Inr \<lparr>columns = [LInt 0, LInt 1],
          rows = [(LStr ''a'', [CInt 10, CInt 11]), (LStr ''b'', [CInt 20, CInt 21])]\<rparr>"
proof -
  let ?R321 = "get_ensemble_record_data (parquet_env wire_321) sample_loader ''e1'' ''FOPR'' quiet"
  let ?Rab = "get_ensemble_record_data (parquet_env wire_ab) sample_loader ''e1'' ''FOPR'' quiet"
  have h321: "list_all int64_readable (columns wire_321)"
    by (simp add: wire_321_def label_samples)
  have hab: "list_all is_str_label (columns wire_ab)" "fails_on_text (columns wire_ab)"
    by (simp_all add: wire_ab_def fails_on_text_def label_samples)
  have sab: "sorted (map str_key (columns wire_ab))"
    by (simp add: wire_ab_def)
  have T: "status_code \<lparr>status_code = 200, content = ''PAR1''\<rparr> = 200" by simp
  note n = record_data_index[where env = "parquet_env wire_321" and self = sample_loader
      and i = "''e1''" and n = "''FOPR''" and w = quiet,
      OF last_answer_parquet_env T read_parquet_parquet_env]
  note a = record_data_index[where env = "parquet_env wire_ab" and self = sample_loader
      and i = "''e1''" and n = "''FOPR''" and w = quiet,
      OF last_answer_parquet_env T read_parquet_parquet_env]
  from n h321 obtain out where out: "fst ?R321 = Inr out"
    "list_all is_int_label (index out)" "sorted (map int_key (index out))"
    "mset (rows out) =
       mset (map (\<lambda>r. (LInt (numeral_value (fst r)), snd r))
               (rows (transpose_df (parquet_env wire_321) wire_321)))"
    by blast
  from a hab sab have 2: "fst ?Rab = Inr (transpose_df (parquet_env wire_ab) wire_ab)"
    by blast
  have 1: "fst ?R321 =
     Inr \<lparr>columns = [LInt 0, LInt 1],
          rows = [(LInt 1, [CInt 10, CInt 11]), (LInt 2, [CInt 20, CInt 21]),
                  (LInt 3, [CInt 30, CInt 31])]\<rparr>"
    using record_data_numeric[OF last_answer_parquet_env T read_parquet_parquet_env h321,
        of sample_loader "''e1''" "''FOPR''" quiet]
    by (simp add: transpose_samples label_samples)
  have rp: "read_parquet (parquet_env wire_321) ''PAR1'' = Inr wire_321"
    "read_parquet (parquet_env wire_ab) ''PAR1'' = Inr wire_ab"
    by (simp_all add: parquet_env_def)
  from 1 2 h321 hab sab rp show ?thesis
    by (simp add: transpose_samples)
qed








end
